theory Spec2Isabelle
  imports Main "HOL-Library.Word"
begin

unbundle bit_operations_syntax

section \<open>Machine types and data model (package bc)\<close>

type_synonym byte = "8 word"
type_synonym uint32 = "32 word"
type_synonym uint64 = "64 word"

text \<open>
  A Go byte slice is a list of bytes; a fixed array \<^verbatim>\<open>[32]byte\<close> (types Hash and AssetID)
  is a list whose length 32 is stated where it matters. An \<^verbatim>\<open>io.Writer\<close> that cannot fail
  (a \<^verbatim>\<open>bytes.Buffer\<close>, a running SHA3 state) is the list of bytes written to it so far; an
  \<^verbatim>\<open>io.Reader\<close> over a byte slice is the list of bytes not yet read.
\<close>

type_synonym writer = "byte list"
type_synonym reader = "byte list"

datatype error =
    MalformedEncoding
  | UnsupportedFlags byte
  | FieldTooLarge
  | InvalidHexText

definition InvalidOutputIndex :: uint32 where
  "InvalidOutputIndex = 0xffffffff"

definition VMVersion :: uint64 where
  "VMVersion = 1"

definition assetDefinitionMaxByteLength :: nat where
  "assetDefinitionMaxByteLength = 5000000"

definition metadataMaxByteLength :: nat where
  "metadataMaxByteLength = 500000"

definition SerWitness :: byte where
  "SerWitness = 1"

definition SerPrevout :: byte where
  "SerPrevout = 2"

definition SerMetadata :: byte where
  "SerMetadata = 4"

definition serRequired :: byte where
  "serRequired = 0x7"

record Outpoint =
  op_Hash :: "byte list"
  op_Index :: uint32

record AssetAmount =
  AssetID :: "byte list"
  Amount :: uint64

record OutputCommitment =
  oc_AssetAmount :: AssetAmount
  oc_VMVersion :: uint32
  ControlProgram :: "byte list"

record TxOutput =
  AssetVersion :: uint32
  to_OutputCommitment :: OutputCommitment
  ReferenceData :: "byte list"

record TxInput =
  Previous :: Outpoint
  ti_AssetAmount :: AssetAmount
  PrevScript :: "byte list"
  SignatureScript :: "byte list"
  ti_Metadata :: "byte list"
  AssetDefinition :: "byte list"

record TxData =
  SerFlags :: byte
  Version :: uint32
  Inputs :: "TxInput list"
  Outputs :: "TxOutput list"
  MinTime :: uint64
  MaxTime :: uint64
  tx_Metadata :: "byte list"

record Tx =
  tx_TxData :: TxData
  tx_Hash :: "byte list"
  Stored :: bool

text \<open>IsIssuance returns true if input's index is 0xffffffff.\<close>

definition IsIssuance :: "TxInput \<Rightarrow> bool" where
  "IsIssuance ti = (op_Index (Previous ti) = InvalidOutputIndex)"

section \<open>Byte-stream primitives (package chain/encoding/blockchain)\<close>

text \<open>
  Modelled from the spec: \<^verbatim>\<open>blockchain.WriteUvarint\<close>, whose package is not among the sources.
  The spec calls it an unsigned LEB128-style varint; the loop is the one of Go's
  \<^verbatim>\<open>binary.PutUvarint\<close>: seven bits per byte, least significant group first, the top bit
  set on every byte but the last.
\<close>

function PutUvarint :: "uint64 \<Rightarrow> byte list" where
  "PutUvarint x =
     (if 0x80 \<le> x then (ucast x OR 0x80) # PutUvarint (drop_bit 7 x) else [ucast x])"
  by pat_completeness auto
termination
proof (relation "measure unat")
  show "wf (measure (unat :: uint64 \<Rightarrow> nat))"
    by simp
next
  fix x :: uint64
  assume "0x80 \<le> x"
  then have "128 \<le> unat x"
    by (simp add: word_le_nat_alt)
  then have "unat x div 128 < unat x"
    by simp
  then show "(drop_bit 7 x, x) \<in> measure unat"
    by (simp add: drop_bit_eq_div unat_div)
qed

declare PutUvarint.simps [simp del]

definition WriteUvarint :: "writer \<Rightarrow> uint64 \<Rightarrow> writer" where
  "WriteUvarint w x = w @ PutUvarint x"

text \<open>
  Modelled from the spec: \<^verbatim>\<open>blockchain.WriteBytes\<close>, a varint byte-length followed by that
  many raw bytes.
\<close>

definition WriteBytes :: "writer \<Rightarrow> byte list \<Rightarrow> writer" where
  "WriteBytes w b = WriteUvarint w (of_nat (length b)) @ b"

section \<open>Encoding: the writeTo methods\<close>

text \<open>
  \<^verbatim>\<open>fastHash\<close> (the digest written in place of a pruned field) is declared in a file of
  package bc that is not among the sources, and SHA3-256 comes from an external library:
  both are parameters \<open>fastHash\<close> and \<open>sha3\<close> of the functions below.
\<close>

definition AssetAmount_writeTo :: "writer \<Rightarrow> AssetAmount \<Rightarrow> writer" where
  "AssetAmount_writeTo w a = WriteUvarint (w @ AssetID a) (Amount a)"

definition Outpoint_WriteTo :: "writer \<Rightarrow> Outpoint \<Rightarrow> writer" where
  "Outpoint_WriteTo w p = WriteUvarint (w @ op_Hash p) (ucast (op_Index p))"

definition writeMetadata ::
  "(byte list \<Rightarrow> byte list) \<Rightarrow> writer \<Rightarrow> byte list \<Rightarrow> byte \<Rightarrow> writer" where
  "writeMetadata fastHash w data serflags =
     (if serflags AND SerMetadata \<noteq> 0 then WriteBytes w data
      else WriteBytes w (fastHash data))"

definition TxInput_writeTo ::
  "(byte list \<Rightarrow> byte list) \<Rightarrow> writer \<Rightarrow> TxInput \<Rightarrow> byte \<Rightarrow> writer" where
  "TxInput_writeTo fastHash w ti serflags =
     (let w = Outpoint_WriteTo w (Previous ti);
          w = (if serflags AND SerPrevout \<noteq> 0
               then WriteBytes (AssetAmount_writeTo w (ti_AssetAmount ti)) (PrevScript ti)
               else w);
          w = (if serflags AND SerWitness \<noteq> 0 then WriteBytes w (SignatureScript ti)
               else WriteBytes w []);
          w = writeMetadata fastHash w (ti_Metadata ti) serflags
      in writeMetadata fastHash w (AssetDefinition ti) serflags)"

text \<open>
  \<^verbatim>\<open>OutputCommitment.writeTo\<close> fills a buffer \<open>b\<close> (\<open>OutputCommitment_bytes\<close>, the envelope's
  content) and writes it length-prefixed.
\<close>

definition OutputCommitment_bytes :: "OutputCommitment \<Rightarrow> uint32 \<Rightarrow> byte list" where
  "OutputCommitment_bytes oc assetVersion =
     (if assetVersion = 1
      then WriteBytes
             (WriteUvarint (AssetAmount_writeTo [] (oc_AssetAmount oc))
                (ucast (oc_VMVersion oc)))
             (ControlProgram oc)
      else [])"

definition OutputCommitment_writeTo :: "writer \<Rightarrow> OutputCommitment \<Rightarrow> uint32 \<Rightarrow> writer" where
  "OutputCommitment_writeTo w oc assetVersion =
     (let b = OutputCommitment_bytes oc assetVersion in WriteBytes w b)"

definition TxOutput_writeTo ::
  "(byte list \<Rightarrow> byte list) \<Rightarrow> writer \<Rightarrow> TxOutput \<Rightarrow> byte \<Rightarrow> writer" where
  "TxOutput_writeTo fastHash w to serflags =
     (let w = WriteUvarint w (ucast (AssetVersion to));
          w = OutputCommitment_writeTo w (to_OutputCommitment to) (AssetVersion to);
          w = writeMetadata fastHash w (ReferenceData to) serflags
      in WriteBytes w [])"

definition TxData_writeTo ::
  "(byte list \<Rightarrow> byte list) \<Rightarrow> writer \<Rightarrow> TxData \<Rightarrow> byte \<Rightarrow> writer" where
  "TxData_writeTo fastHash w tx serflags =
     (let w = w @ [serflags];
          w = WriteUvarint w (ucast (Version tx));
          w = WriteUvarint w (of_nat (length (Inputs tx)));
          w = foldl (\<lambda>w ti. TxInput_writeTo fastHash w ti serflags) w (Inputs tx);
          w = WriteUvarint w (of_nat (length (Outputs tx)));
          w = foldl (\<lambda>w to. TxOutput_writeTo fastHash w to serflags) w (Outputs tx);
          w = WriteUvarint w (MinTime tx);
          w = WriteUvarint w (MaxTime tx)
      in writeMetadata fastHash w (tx_Metadata tx) serflags)"

text \<open>
  Hash: a fresh SHA3-256 state (nothing written yet), \<^verbatim>\<open>tx.writeTo(h, 0)\<close>, then the digest
  of everything written.
\<close>

definition TxData_Hash ::
  "(byte list \<Rightarrow> byte list) \<Rightarrow> (byte list \<Rightarrow> byte list) \<Rightarrow> TxData \<Rightarrow> byte list" where
  "TxData_Hash sha3 fastHash tx = (let h = TxData_writeTo fastHash [] tx 0 in sha3 h)"

section \<open>The serflags = 0 rendering in the spec's words\<close>

text \<open>
  The wire format of the spec's section 6 read at serflags = 0: no prevout fields, an empty
  signature script, and a length-prefixed digest for every metadata-governed field.
\<close>

definition lengthPrefixed :: "byte list \<Rightarrow> byte list" where
  "lengthPrefixed b = PutUvarint (of_nat (length b)) @ b"

definition input_digest_form :: "(byte list \<Rightarrow> byte list) \<Rightarrow> TxInput \<Rightarrow> byte list" where
  "input_digest_form fastHash ti =
     op_Hash (Previous ti) @ PutUvarint (ucast (op_Index (Previous ti)))
     @ lengthPrefixed []
     @ lengthPrefixed (fastHash (ti_Metadata ti))
     @ lengthPrefixed (fastHash (AssetDefinition ti))"

definition commitment_envelope :: "TxOutput \<Rightarrow> byte list" where
  "commitment_envelope to =
     (if AssetVersion to = 1
      then AssetID (oc_AssetAmount (to_OutputCommitment to))
           @ PutUvarint (Amount (oc_AssetAmount (to_OutputCommitment to)))
           @ PutUvarint (ucast (oc_VMVersion (to_OutputCommitment to)))
           @ lengthPrefixed (ControlProgram (to_OutputCommitment to))
      else [])"

definition output_digest_form :: "(byte list \<Rightarrow> byte list) \<Rightarrow> TxOutput \<Rightarrow> byte list" where
  "output_digest_form fastHash to =
     PutUvarint (ucast (AssetVersion to))
     @ lengthPrefixed (commitment_envelope to)
     @ lengthPrefixed (fastHash (ReferenceData to))
     @ lengthPrefixed []"

definition digest_rendering :: "(byte list \<Rightarrow> byte list) \<Rightarrow> TxData \<Rightarrow> byte list" where
  "digest_rendering fastHash tx =
     [0] @ PutUvarint (ucast (Version tx))
     @ PutUvarint (of_nat (length (Inputs tx)))
     @ concat (map (input_digest_form fastHash) (Inputs tx))
     @ PutUvarint (of_nat (length (Outputs tx)))
     @ concat (map (output_digest_form fastHash) (Outputs tx))
     @ PutUvarint (MinTime tx) @ PutUvarint (MaxTime tx)
     @ lengthPrefixed (fastHash (tx_Metadata tx))"

section \<open>Reading primitives\<close>

text \<open>
  \<^verbatim>\<open>io.ReadFull\<close> of Go's standard library on a reader over a byte slice: it fills \<open>buf\<close>
  or fails. On a short stream the bytes that were read overwrite the front of \<open>buf\<close>, the
  stream is exhausted and an error (\<^verbatim>\<open>io.EOF\<close> or \<^verbatim>\<open>io.ErrUnexpectedEOF\<close>) is returned.
\<close>

definition ReadFull :: "reader \<Rightarrow> byte list \<Rightarrow> byte list \<times> error option \<times> reader" where
  "ReadFull r buf =
     (if length buf \<le> length r then (take (length buf) r, None, drop (length buf) r)
      else (r @ drop (length r) buf, Some MalformedEncoding, []))"

text \<open>
  Modelled from the spec: \<^verbatim>\<open>blockchain.ReadUvarint\<close>, whose package is not among the sources.
  The inverse of \<open>PutUvarint\<close>, with the loop of Go's \<^verbatim>\<open>binary.ReadUvarint\<close>: \<open>x\<close> collects
  the groups, \<open>s\<close> is the shift and \<open>i\<close> the number of bytes read; a truncated stream and a
  value that does not fit 64 bits are errors.
\<close>

fun readUvarint_loop :: "uint64 \<Rightarrow> nat \<Rightarrow> nat \<Rightarrow> reader \<Rightarrow> uint64 \<times> error option \<times> reader" where
  "readUvarint_loop x s i [] = (x, Some MalformedEncoding, [])"
| "readUvarint_loop x s i (b # r) =
     (if b < 0x80
      then (if 9 < i \<or> (i = 9 \<and> 1 < b) then (x, Some MalformedEncoding, r)
            else (x OR push_bit s (ucast b), None, r))
      else readUvarint_loop (x OR push_bit s (ucast (b AND 0x7f))) (s + 7) (i + 1) r)"

definition ReadUvarint :: "reader \<Rightarrow> uint64 \<times> error option \<times> reader" where
  "ReadUvarint r = readUvarint_loop 0 0 0 r"

text \<open>
  Modelled from the spec: \<^verbatim>\<open>blockchain.ReadBytes\<close>, the length-prefixed read with a
  max-length cap. A declared length above the cap is FieldTooLarge (the spec's bound is
  inclusive: a field of exactly the cap decodes); fewer bytes than declared is a truncation.
\<close>

definition ReadBytes :: "reader \<Rightarrow> nat \<Rightarrow> byte list \<times> error option \<times> reader" where
  "ReadBytes r maxlen =
     (case ReadUvarint r of
        (n, Some e, r') \<Rightarrow> ([], Some e, r')
      | (n, None, r') \<Rightarrow>
          if maxlen < unat n then ([], Some FieldTooLarge, r')
          else if unat n \<le> length r' then (take (unat n) r', None, drop (unat n) r')
          else ([], Some MalformedEncoding, []))"

section \<open>Decoding: the readFrom methods\<close>

text \<open>
  \<^verbatim>\<open>scriptMaxByteLength\<close> and \<^verbatim>\<open>commitmentMaxByteLength\<close> are constants of package bc
  declared outside the sources: they are the parameters \<open>scriptMax\<close> and \<open>commitmentMax\<close>.
  Every method takes the receiver as it is before the call and returns it as it is after,
  with the error (if any) and the reader. The zero values are Go's.
\<close>

definition zeroHash :: "byte list" where
  "zeroHash = replicate 32 0"

definition zeroOutpoint :: Outpoint where
  "zeroOutpoint = \<lparr>op_Hash = zeroHash, op_Index = 0\<rparr>"

definition zeroAssetAmount :: AssetAmount where
  "zeroAssetAmount = \<lparr>AssetID = zeroHash, Amount = 0\<rparr>"

definition zeroOutputCommitment :: OutputCommitment where
  "zeroOutputCommitment =
     \<lparr>oc_AssetAmount = zeroAssetAmount, oc_VMVersion = 0, ControlProgram = []\<rparr>"

definition zeroTxOutput :: TxOutput where
  "zeroTxOutput =
     \<lparr>AssetVersion = 0, to_OutputCommitment = zeroOutputCommitment, ReferenceData = []\<rparr>"

definition zeroTxInput :: TxInput where
  "zeroTxInput =
     \<lparr>Previous = zeroOutpoint, ti_AssetAmount = zeroAssetAmount, PrevScript = [],
      SignatureScript = [], ti_Metadata = [], AssetDefinition = []\<rparr>"

definition zeroTxData :: TxData where
  "zeroTxData =
     \<lparr>SerFlags = 0, Version = 0, Inputs = [], Outputs = [], MinTime = 0, MaxTime = 0,
      tx_Metadata = []\<rparr>"

definition Outpoint_readFrom :: "Outpoint \<Rightarrow> reader \<Rightarrow> Outpoint \<times> reader" where
  "Outpoint_readFrom p r =
     (let (h, _, r) = ReadFull r (op_Hash p);
          p = p\<lparr>op_Hash := h\<rparr>;
          (index, _, r) = ReadUvarint r
      in (p\<lparr>op_Index := ucast index\<rparr>, r))"

definition AssetAmount_readFrom :: "AssetAmount \<Rightarrow> reader \<Rightarrow> AssetAmount \<times> reader" where
  "AssetAmount_readFrom a r =
     (let (h, _, r) = ReadFull r (AssetID a);
          a = a\<lparr>AssetID := h\<rparr>;
          (amount, _, r) = ReadUvarint r
      in (a\<lparr>Amount := amount\<rparr>, r))"

definition TxInput_readFrom ::
  "nat \<Rightarrow> TxInput \<Rightarrow> reader \<Rightarrow> TxInput \<times> error option \<times> reader" where
  "TxInput_readFrom scriptMax ti r =
     (let (p, r) = Outpoint_readFrom (Previous ti) r;
          ti = ti\<lparr>Previous := p\<rparr>;
          (a, r) = AssetAmount_readFrom (ti_AssetAmount ti) r;
          ti = ti\<lparr>ti_AssetAmount := a\<rparr>;
          (b, err, r) = ReadBytes r scriptMax;
          ti = ti\<lparr>PrevScript := b\<rparr>
      in if err \<noteq> None then (ti, err, r) else
     (let (b, err, r) = ReadBytes r scriptMax;
          ti = ti\<lparr>SignatureScript := b\<rparr>
      in if err \<noteq> None then (ti, err, r) else
     (let (b, err, r) = ReadBytes r metadataMaxByteLength;
          ti = ti\<lparr>ti_Metadata := b\<rparr>
      in if err \<noteq> None then (ti, err, r) else
     (let (b, err, r) = ReadBytes r assetDefinitionMaxByteLength;
          ti = ti\<lparr>AssetDefinition := b\<rparr>
      in (ti, err, r)))))"

definition OutputCommitment_readFrom ::
  "nat \<Rightarrow> nat \<Rightarrow> OutputCommitment \<Rightarrow> reader \<Rightarrow> uint32 \<Rightarrow>
   OutputCommitment \<times> error option \<times> reader" where
  "OutputCommitment_readFrom scriptMax commitmentMax oc r assetVersion =
     (let (b, err, r) = ReadBytes r commitmentMax
      in if err \<noteq> None then (oc, err, r)
         else if assetVersion \<noteq> 1 then (oc, None, r)
         else
          (let rb = b;
               (a, rb) = AssetAmount_readFrom (oc_AssetAmount oc) rb;
               oc = oc\<lparr>oc_AssetAmount := a\<rparr>;
               (vmVersion, _, rb) = ReadUvarint rb;
               oc = oc\<lparr>oc_VMVersion := ucast vmVersion\<rparr>;
               (cp, err, rb) = ReadBytes rb scriptMax;
               oc = oc\<lparr>ControlProgram := cp\<rparr>
           in (oc, err, r)))"

definition TxOutput_readFrom ::
  "nat \<Rightarrow> nat \<Rightarrow> TxOutput \<Rightarrow> reader \<Rightarrow> TxOutput \<times> error option \<times> reader" where
  "TxOutput_readFrom scriptMax commitmentMax to r =
     (let (assetVersion, _, r) = ReadUvarint r;
          to = to\<lparr>AssetVersion := ucast assetVersion\<rparr>;
          (oc, err, r) =
            OutputCommitment_readFrom scriptMax commitmentMax (to_OutputCommitment to) r
              (AssetVersion to);
          to = to\<lparr>to_OutputCommitment := oc\<rparr>
      in if err \<noteq> None then (to, err, r) else
     (let (b, err, r) = ReadBytes r metadataMaxByteLength;
          to = to\<lparr>ReferenceData := b\<rparr>
      in if err \<noteq> None then (to, err, r) else
     (let (_, err, r) = ReadBytes r commitmentMax
      in (to, err, r))))"

text \<open>
  The two loops of \<^verbatim>\<open>TxData.readFrom\<close>: \<open>n\<close> counts down from the declared count, every
  pass reads one record into a fresh value and appends it; the first error ends the loop.
\<close>

fun readInputs ::
  "nat \<Rightarrow> nat \<Rightarrow> TxInput list \<Rightarrow> reader \<Rightarrow> TxInput list \<times> error option \<times> reader" where
  "readInputs scriptMax 0 ins r = (ins, None, r)"
| "readInputs scriptMax (Suc n) ins r =
     (case TxInput_readFrom scriptMax zeroTxInput r of
        (ti, Some e, r') \<Rightarrow> (ins, Some e, r')
      | (ti, None, r') \<Rightarrow> readInputs scriptMax n (ins @ [ti]) r')"

fun readOutputs ::
  "nat \<Rightarrow> nat \<Rightarrow> nat \<Rightarrow> TxOutput list \<Rightarrow> reader \<Rightarrow> TxOutput list \<times> error option \<times> reader" where
  "readOutputs scriptMax commitmentMax 0 outs r = (outs, None, r)"
| "readOutputs scriptMax commitmentMax (Suc n) outs r =
     (case TxOutput_readFrom scriptMax commitmentMax zeroTxOutput r of
        (to, Some e, r') \<Rightarrow> (outs, Some e, r')
      | (to, None, r') \<Rightarrow> readOutputs scriptMax commitmentMax n (outs @ [to]) r')"

definition TxData_readFrom ::
  "nat \<Rightarrow> nat \<Rightarrow> TxData \<Rightarrow> reader \<Rightarrow> TxData \<times> error option \<times> reader" where
  "TxData_readFrom scriptMax commitmentMax tx r =
     (let (serflags, err, r) = ReadFull r [0];
          tx = tx\<lparr>SerFlags := hd serflags\<rparr>
      in if err = None \<and> SerFlags tx \<noteq> serRequired
         then (tx, Some (UnsupportedFlags (SerFlags tx)), r) else
     (let (v, _, r) = ReadUvarint r;
          tx = tx\<lparr>Version := ucast v\<rparr>;
          (n, _, r) = ReadUvarint r;
          (ins, err, r) = readInputs scriptMax (unat n) (Inputs tx) r;
          tx = tx\<lparr>Inputs := ins\<rparr>
      in if err \<noteq> None then (tx, err, r) else
     (let (n, _, r) = ReadUvarint r;
          (outs, err, r) = readOutputs scriptMax commitmentMax (unat n) (Outputs tx) r;
          tx = tx\<lparr>Outputs := outs\<rparr>
      in if err \<noteq> None then (tx, err, r) else
     (let (minTime, _, r) = ReadUvarint r;
          tx = tx\<lparr>MinTime := minTime\<rparr>;
          (maxTime, _, r) = ReadUvarint r;
          tx = tx\<lparr>MaxTime := maxTime\<rparr>;
          (b, err, r) = ReadBytes r metadataMaxByteLength;
          tx = tx\<lparr>tx_Metadata := b\<rparr>
      in (tx, err, r)))))"

text \<open>
  Scan reads a transaction from a byte slice into the receiver. \<open>decode\<close> is the spec's
  \<^verbatim>\<open>decode(bytes) -> TxData | DecodeError\<close>: Scan into a fresh TxData, the transaction kept
  only when no error is returned.
\<close>

definition TxData_Scan :: "nat \<Rightarrow> nat \<Rightarrow> TxData \<Rightarrow> byte list \<Rightarrow> TxData \<times> error option" where
  "TxData_Scan scriptMax commitmentMax tx b =
     (let (tx, err, _) = TxData_readFrom scriptMax commitmentMax tx b in (tx, err))"

definition decode :: "nat \<Rightarrow> nat \<Rightarrow> byte list \<Rightarrow> error + TxData" where
  "decode scriptMax commitmentMax b =
     (case TxData_Scan scriptMax commitmentMax zeroTxData b of
        (tx, None) \<Rightarrow> Inr tx
      | (tx, Some e) \<Rightarrow> Inl e)"

text \<open>
  WriteTo into an empty \<^verbatim>\<open>bytes.Buffer\<close> (methods Value and MarshalText): the wire encoding,
  always written with serRequired.
\<close>

definition TxData_Value :: "(byte list \<Rightarrow> byte list) \<Rightarrow> TxData \<Rightarrow> byte list" where
  "TxData_Value fastHash tx = TxData_writeTo fastHash [] tx serRequired"

section \<open>Text form and Tx\<close>

text \<open>
  \<^verbatim>\<open>hex.Decode\<close> of Go's standard library: two hexadecimal digits (either case) per byte;
  an odd length or any other character is an error.
\<close>

definition fromHexChar :: "byte \<Rightarrow> byte option" where
  "fromHexChar c =
     (if 0x30 \<le> c \<and> c \<le> 0x39 then Some (c - 0x30)
      else if 0x61 \<le> c \<and> c \<le> 0x66 then Some (c - 0x61 + 10)
      else if 0x41 \<le> c \<and> c \<le> 0x46 then Some (c - 0x41 + 10)
      else None)"

fun hex_Decode :: "byte list \<Rightarrow> error + byte list" where
  "hex_Decode [] = Inr []"
| "hex_Decode [c] = Inl InvalidHexText"
| "hex_Decode (p # q # src) =
     (case (fromHexChar p, fromHexChar q) of
        (Some a, Some b) \<Rightarrow>
          (case hex_Decode src of
             Inl e \<Rightarrow> Inl e
           | Inr dst \<Rightarrow> Inr ((push_bit 4 a OR b) # dst))
      | _ \<Rightarrow> Inl InvalidHexText)"

definition TxData_UnmarshalText ::
  "nat \<Rightarrow> nat \<Rightarrow> TxData \<Rightarrow> byte list \<Rightarrow> TxData \<times> error option" where
  "TxData_UnmarshalText scriptMax commitmentMax tx p =
     (case hex_Decode p of
        Inl e \<Rightarrow> (tx, Some e)
      | Inr b \<Rightarrow>
          (let (tx, err, _) = TxData_readFrom scriptMax commitmentMax tx b in (tx, err)))"

definition Tx_UnmarshalText ::
  "(byte list \<Rightarrow> byte list) \<Rightarrow> (byte list \<Rightarrow> byte list) \<Rightarrow> nat \<Rightarrow> nat \<Rightarrow> Tx \<Rightarrow> byte list \<Rightarrow>
   Tx \<times> error option" where
  "Tx_UnmarshalText sha3 fastHash scriptMax commitmentMax tx p =
     (case TxData_UnmarshalText scriptMax commitmentMax (tx_TxData tx) p of
        (d, Some e) \<Rightarrow> (tx\<lparr>tx_TxData := d\<rparr>, Some e)
      | (d, None) \<Rightarrow> (tx\<lparr>tx_TxData := d, tx_Hash := TxData_Hash sha3 fastHash d\<rparr>, None))"

definition NewTx ::
  "(byte list \<Rightarrow> byte list) \<Rightarrow> (byte list \<Rightarrow> byte list) \<Rightarrow> TxData \<Rightarrow> Tx" where
  "NewTx sha3 fastHash data =
     \<lparr>tx_TxData = data, tx_Hash = TxData_Hash sha3 fastHash data, Stored = False\<rparr>"

section \<open>Well-formed transactions\<close>

text \<open>
  What the round trip needs of a transaction. The lengths 32 are the array types
  \<^verbatim>\<open>[32]byte\<close> of Hash and AssetID, and the bounds \<open>2 ^ 64\<close> on the numbers of inputs and
  outputs hold of every Go slice; the rest is the claim's: SerFlags is the required
  combination, every output has AssetVersion 1, and every length-capped field (the
  commitment envelope among them) is within its cap.
\<close>

definition wf_TxInput :: "nat \<Rightarrow> TxInput \<Rightarrow> bool" where
  "wf_TxInput scriptMax ti =
     (length (op_Hash (Previous ti)) = 32
      \<and> length (AssetID (ti_AssetAmount ti)) = 32
      \<and> length (PrevScript ti) \<le> scriptMax
      \<and> length (SignatureScript ti) \<le> scriptMax
      \<and> length (ti_Metadata ti) \<le> metadataMaxByteLength
      \<and> length (AssetDefinition ti) \<le> assetDefinitionMaxByteLength)"

definition wf_TxOutput :: "nat \<Rightarrow> nat \<Rightarrow> TxOutput \<Rightarrow> bool" where
  "wf_TxOutput scriptMax commitmentMax to =
     (AssetVersion to = 1
      \<and> length (AssetID (oc_AssetAmount (to_OutputCommitment to))) = 32
      \<and> length (ControlProgram (to_OutputCommitment to)) \<le> scriptMax
      \<and> length (OutputCommitment_bytes (to_OutputCommitment to) (AssetVersion to))
          \<le> commitmentMax
      \<and> length (ReferenceData to) \<le> metadataMaxByteLength)"

definition wf_body :: "nat \<Rightarrow> nat \<Rightarrow> TxData \<Rightarrow> bool" where
  "wf_body scriptMax commitmentMax tx =
     (SerFlags tx = serRequired
      \<and> length (Inputs tx) < 2 ^ 64
      \<and> length (Outputs tx) < 2 ^ 64
      \<and> list_all (wf_TxInput scriptMax) (Inputs tx)
      \<and> list_all (wf_TxOutput scriptMax commitmentMax) (Outputs tx))"

definition wellformed :: "nat \<Rightarrow> nat \<Rightarrow> TxData \<Rightarrow> bool" where
  "wellformed scriptMax commitmentMax tx =
     (wf_body scriptMax commitmentMax tx
      \<and> length (tx_Metadata tx) \<le> metadataMaxByteLength)"

section \<open>Signature hashes\<close>

text \<open>
  The type SigHashType and its constants (SigHashAll, SigHashNone, SigHashSingle,
  SigHashAnyOneCanPay, sigHashMask) are declared in a file of package bc that is not
  among the sources. The type is a machine word of some width \<open>'w\<close>, and the constants are
  the fields of a parameter \<open>K\<close>.
\<close>

record (overloaded) ('w::len) SigHashConsts =
  SigHashAll :: "'w word"
  SigHashNone :: "'w word"
  SigHashSingle :: "'w word"
  SigHashAnyOneCanPay :: "'w word"
  sigHashMask :: "'w word"

text \<open>
  Go panics when a slice is indexed out of range and when a nil pointer is dereferenced;
  a panic is a result of its own.
\<close>

datatype panic = IndexOutOfRange | NilDereference

record SigHasher =
  sh_tx :: TxData
  inputsHash :: "byte list option"
  allOutputsHash :: "byte list option"

definition NewSigHasher :: "TxData \<Rightarrow> SigHasher" where
  "NewSigHasher tx = \<lparr>sh_tx = tx, inputsHash = None, allOutputsHash = None\<rparr>"

text \<open>
  writeInput and writeOutput index the slices; every call below is made with an index
  that was checked, or that a loop keeps in range.
\<close>

definition writeInput ::
  "(byte list \<Rightarrow> byte list) \<Rightarrow> SigHasher \<Rightarrow> writer \<Rightarrow> nat \<Rightarrow> writer" where
  "writeInput fastHash s w idx = TxInput_writeTo fastHash w (Inputs (sh_tx s) ! idx) 0"

definition writeOutput ::
  "(byte list \<Rightarrow> byte list) \<Rightarrow> SigHasher \<Rightarrow> writer \<Rightarrow> nat \<Rightarrow> writer" where
  "writeOutput fastHash s w idx = TxOutput_writeTo fastHash w (Outputs (sh_tx s) ! idx) 0"

definition getInputsHash ::
  "(byte list \<Rightarrow> byte list) \<Rightarrow> (byte list \<Rightarrow> byte list) \<Rightarrow> SigHasher \<Rightarrow> byte list \<times> SigHasher" where
  "getInputsHash sha3 fastHash s =
     (case inputsHash s of
        Some h \<Rightarrow> (h, s)
      | None \<Rightarrow>
          (let w = WriteUvarint [] (of_nat (length (Inputs (sh_tx s))));
               w = foldl (writeInput fastHash s) w [0..<length (Inputs (sh_tx s))];
               hash = sha3 w
           in (hash, s\<lparr>inputsHash := Some hash\<rparr>)))"

definition getAllOutputsHash ::
  "(byte list \<Rightarrow> byte list) \<Rightarrow> (byte list \<Rightarrow> byte list) \<Rightarrow> SigHasher \<Rightarrow> byte list \<times> SigHasher" where
  "getAllOutputsHash sha3 fastHash s =
     (case allOutputsHash s of
        Some h \<Rightarrow> (h, s)
      | None \<Rightarrow>
          (let w = WriteUvarint [] (of_nat (length (Outputs (sh_tx s))));
               w = foldl (writeOutput fastHash s) w [0..<length (Outputs (sh_tx s))];
               hash = sha3 w
           in (hash, s\<lparr>allOutputsHash := Some hash\<rparr>)))"

text \<open>
  The three contributions that \<^verbatim>\<open>SigHasher.Hash\<close> computes before the final digest, each
  the block of the method that assigns the variable of that name. \<open>sig_outputsHash\<close> is the
  switch: the first matching case wins, and with no matching case the pointer stays nil.
\<close>

definition sig_inputsHash ::
  "'w::len SigHashConsts \<Rightarrow> (byte list \<Rightarrow> byte list) \<Rightarrow> (byte list \<Rightarrow> byte list) \<Rightarrow> SigHasher \<Rightarrow>
   'w word \<Rightarrow> byte list \<times> SigHasher" where
  "sig_inputsHash K sha3 fastHash s hashType =
     (if hashType AND SigHashAnyOneCanPay K = 0 then getInputsHash sha3 fastHash s
      else (zeroHash, s))"

definition sig_outputCommitment :: "TxInput \<Rightarrow> byte list" where
  "sig_outputCommitment ti =
     (if \<not> IsIssuance ti
      then (let buf = [] @ AssetID (ti_AssetAmount ti);
                buf = WriteUvarint buf (Amount (ti_AssetAmount ti));
                buf = WriteUvarint buf VMVersion
            in WriteBytes buf (PrevScript ti))
      else [])"

definition sig_outputsHash ::
  "'w::len SigHashConsts \<Rightarrow> (byte list \<Rightarrow> byte list) \<Rightarrow> (byte list \<Rightarrow> byte list) \<Rightarrow> SigHasher \<Rightarrow>
   int \<Rightarrow> 'w word \<Rightarrow> byte list option \<times> SigHasher" where
  "sig_outputsHash K sha3 fastHash s idx hashType =
     (if hashType AND sigHashMask K = SigHashAll K
      then (let (h, s) = getAllOutputsHash sha3 fastHash s in (Some h, s))
      else if hashType AND sigHashMask K = SigHashNone K then (Some zeroHash, s)
      else if hashType AND sigHashMask K = SigHashSingle K
      then (if int (length (Outputs (sh_tx s))) \<le> idx then (Some zeroHash, s)
            else (let w = WriteUvarint [] 1;
                      w = writeOutput fastHash s w (nat idx)
                  in (Some (sha3 w), s)))
      else (None, s))"

text \<open>
  \<^verbatim>\<open>SigHasher.Hash\<close> up to the last write: what has been written into the final SHA3 state,
  and the hasher with its memoised digests. The index is a Go int.
\<close>

definition SigHasher_Hash_written ::
  "'w::len SigHashConsts \<Rightarrow> (byte list \<Rightarrow> byte list) \<Rightarrow> (byte list \<Rightarrow> byte list) \<Rightarrow> SigHasher \<Rightarrow>
   int \<Rightarrow> 'w word \<Rightarrow> panic + writer \<times> SigHasher" where
  "SigHasher_Hash_written K sha3 fastHash s idx hashType =
     (let (inputsHash, s) = sig_inputsHash K sha3 fastHash s hashType
      in if idx < 0 \<or> int (length (Inputs (sh_tx s))) \<le> idx then Inl IndexOutOfRange else
     (let outputCommitment = sig_outputCommitment (Inputs (sh_tx s) ! nat idx);
          (outputsHash, s) = sig_outputsHash K sha3 fastHash s idx hashType;
          w = WriteUvarint [] (ucast (Version (sh_tx s)));
          w = w @ inputsHash
      in case outputsHash of
           None \<Rightarrow> Inl NilDereference
         | Some outputsHash \<Rightarrow>
            (let w = writeInput fastHash s w (nat idx);
                 w = WriteBytes w outputCommitment;
                 w = w @ outputsHash;
                 w = WriteUvarint w (MinTime (sh_tx s));
                 w = WriteUvarint w (MaxTime (sh_tx s));
                 w = writeMetadata fastHash w (tx_Metadata (sh_tx s)) 0;
                 w = w @ [ucast hashType]
             in Inr (w, s))))"

definition SigHasher_Hash ::
  "'w::len SigHashConsts \<Rightarrow> (byte list \<Rightarrow> byte list) \<Rightarrow> (byte list \<Rightarrow> byte list) \<Rightarrow> SigHasher \<Rightarrow>
   int \<Rightarrow> 'w word \<Rightarrow> panic + byte list \<times> SigHasher" where
  "SigHasher_Hash K sha3 fastHash s idx hashType =
     (case SigHasher_Hash_written K sha3 fastHash s idx hashType of
        Inl p \<Rightarrow> Inl p
      | Inr (w, s) \<Rightarrow> Inr (sha3 w, s))"

definition HashForSig ::
  "'w::len SigHashConsts \<Rightarrow> (byte list \<Rightarrow> byte list) \<Rightarrow> (byte list \<Rightarrow> byte list) \<Rightarrow> TxData \<Rightarrow>
   int \<Rightarrow> 'w word \<Rightarrow> panic + byte list" where
  "HashForSig K sha3 fastHash tx idx hashType =
     (case SigHasher_Hash K sha3 fastHash (NewSigHasher tx) idx hashType of
        Inl p \<Rightarrow> Inl p
      | Inr (h, s) \<Rightarrow> Inr h)"

section \<open>Example values\<close>

text \<open>
  A transaction with one issuance input and one output, and the values that Bitcoin's
  signature hashing gives the hash types (ALL = 1, NONE = 2, SINGLE = 3, ANYONECANPAY =
  0x80, base-type mask 0x1f). They serve as concrete inputs on which the theorems below
  are exercised.
\<close>

definition example_input :: TxInput where
  "example_input =
     \<lparr>Previous = \<lparr>op_Hash = replicate 32 1, op_Index = 0xffffffff\<rparr>,
      ti_AssetAmount = \<lparr>AssetID = replicate 32 2, Amount = 300\<rparr>,
      PrevScript = [1, 2], SignatureScript = [3], ti_Metadata = [4],
      AssetDefinition = [5, 6]\<rparr>"

definition example_output :: TxOutput where
  "example_output =
     \<lparr>AssetVersion = 1,
      to_OutputCommitment =
        \<lparr>oc_AssetAmount = \<lparr>AssetID = replicate 32 2, Amount = 300\<rparr>,
         oc_VMVersion = 1, ControlProgram = [7]\<rparr>,
      ReferenceData = [8]\<rparr>"

definition example_tx :: TxData where
  "example_tx =
     \<lparr>SerFlags = 7, Version = 1, Inputs = [example_input], Outputs = [example_output],
      MinTime = 0, MaxTime = 1000, tx_Metadata = [9]\<rparr>"

definition example_consts :: "8 SigHashConsts" where
  "example_consts =
     \<lparr>SigHashAll = 1, SigHashNone = 2, SigHashSingle = 3, SigHashAnyOneCanPay = 0x80,
      sigHashMask = 0x1f\<rparr>"

section \<open>Writers only append\<close>

lemma WriteUvarint_append: "WriteUvarint w x = w @ WriteUvarint [] x"
  by (simp add: WriteUvarint_def)

lemma WriteBytes_append: "WriteBytes w b = w @ WriteBytes [] b"
  by (simp add: WriteBytes_def WriteUvarint_def)

lemma WriteBytes_lengthPrefixed: "WriteBytes w b = w @ lengthPrefixed b"
  by (simp add: WriteBytes_def WriteUvarint_def lengthPrefixed_def)

lemma writeMetadata_append:
  "writeMetadata fh w d f = w @ writeMetadata fh [] d f"
  by (simp add: writeMetadata_def WriteBytes_lengthPrefixed)

lemma Outpoint_WriteTo_append: "Outpoint_WriteTo w p = w @ Outpoint_WriteTo [] p"
  by (simp add: Outpoint_WriteTo_def WriteUvarint_def)

lemma AssetAmount_writeTo_append: "AssetAmount_writeTo w a = w @ AssetAmount_writeTo [] a"
  by (simp add: AssetAmount_writeTo_def WriteUvarint_def)

lemma TxInput_writeTo_append:
  "TxInput_writeTo fh w ti f = w @ TxInput_writeTo fh [] ti f"
  by (simp add: TxInput_writeTo_def Let_def writeMetadata_def WriteBytes_lengthPrefixed
      Outpoint_WriteTo_def AssetAmount_writeTo_def WriteUvarint_def)

lemma TxOutput_writeTo_append:
  "TxOutput_writeTo fh w to f = w @ TxOutput_writeTo fh [] to f"
  by (simp add: TxOutput_writeTo_def OutputCommitment_writeTo_def Let_def writeMetadata_def
      WriteBytes_lengthPrefixed WriteUvarint_def)

lemma foldl_writer_concat:
  assumes "\<And>w x. g w x = w @ g [] x"
  shows "foldl g w xs = w @ concat (map (g []) xs)"
proof (induction xs arbitrary: w)
  case Nil
  show ?case by simp
next
  case (Cons x xs)
  have "foldl g w (x # xs) = foldl g (g w x) xs" by simp
  also have "\<dots> = g w x @ concat (map (g []) xs)" by (rule Cons.IH)
  also have "\<dots> = w @ g [] x @ concat (map (g []) xs)" using assms [of w x] by simp
  finally show ?case by simp
qed

lemma TxData_writeTo_bytes:
  "TxData_writeTo fh w tx f =
     w @ [f] @ PutUvarint (ucast (Version tx))
     @ PutUvarint (of_nat (length (Inputs tx)))
     @ concat (map (\<lambda>ti. TxInput_writeTo fh [] ti f) (Inputs tx))
     @ PutUvarint (of_nat (length (Outputs tx)))
     @ concat (map (\<lambda>to. TxOutput_writeTo fh [] to f) (Outputs tx))
     @ PutUvarint (MinTime tx) @ PutUvarint (MaxTime tx)
     @ writeMetadata fh [] (tx_Metadata tx) f"
proof -
  have ins: "\<And>w. foldl (\<lambda>w ti. TxInput_writeTo fh w ti f) w (Inputs tx)
      = w @ concat (map (\<lambda>ti. TxInput_writeTo fh [] ti f) (Inputs tx))"
    by (rule foldl_writer_concat) (rule TxInput_writeTo_append)
  have outs: "\<And>w. foldl (\<lambda>w to. TxOutput_writeTo fh w to f) w (Outputs tx)
      = w @ concat (map (\<lambda>to. TxOutput_writeTo fh [] to f) (Outputs tx))"
    by (rule foldl_writer_concat) (rule TxOutput_writeTo_append)
  show ?thesis
    unfolding TxData_writeTo_def Let_def ins outs WriteUvarint_def
    by (simp add: writeMetadata_append [of fh "_ @ _"])
qed

lemma TxInput_writeTo_zero:
  "TxInput_writeTo fh [] ti 0 = input_digest_form fh ti"
  by (simp add: TxInput_writeTo_def Let_def writeMetadata_def WriteBytes_lengthPrefixed
      Outpoint_WriteTo_def WriteUvarint_def input_digest_form_def)

lemma TxOutput_writeTo_zero:
  "TxOutput_writeTo fh [] to 0 = output_digest_form fh to"
  by (simp add: TxOutput_writeTo_def OutputCommitment_writeTo_def OutputCommitment_bytes_def
      Let_def writeMetadata_def WriteBytes_lengthPrefixed WriteUvarint_def
      output_digest_form_def commitment_envelope_def AssetAmount_writeTo_def)

lemma TxData_writeTo_zero: "TxData_writeTo fh [] tx 0 = digest_rendering fh tx"
  by (simp add: TxData_writeTo_bytes TxInput_writeTo_zero TxOutput_writeTo_zero
      digest_rendering_def writeMetadata_def WriteBytes_lengthPrefixed)

section \<open>The canonical hash\<close>

text \<open>
  Claim C1. For every TxData \<open>t\<close>, Hash(t) is the SHA3-256 digest of the bytes that
  \<^verbatim>\<open>writeTo\<close> produces for \<open>t\<close> with serflags = 0, and those bytes are the rendering of the
  spec's wire format at serflags = 0: no prevout fields, an empty signature script, and
  the length-prefixed digest of every metadata, asset definition and reference data
  field. Hash is a function of \<open>t\<close> (and of the two digest functions) alone.
\<close>

theorem Hash_is_sha3_of_serflags0_encoding:
  "TxData_Hash sha3 fastHash t = sha3 (TxData_writeTo fastHash [] t 0)
   \<and> TxData_writeTo fastHash [] t 0 = digest_rendering fastHash t"
  by (simp add: TxData_Hash_def TxData_writeTo_zero)

lemma input_digest_form_SignatureScript:
  "input_digest_form fh (ti\<lparr>SignatureScript := s\<rparr>) = input_digest_form fh ti"
  by (simp add: input_digest_form_def)

lemma input_digest_form_prevout:
  "input_digest_form fh (ti\<lparr>ti_AssetAmount := a, PrevScript := p\<rparr>) = input_digest_form fh ti"
  by (simp add: input_digest_form_def)

lemma map_list_update_same:
  assumes "f y = f (xs ! i)"
  shows "map f (xs[i := y]) = map f xs"
proof (cases "i < length xs")
  case True
  then show ?thesis using assms by (simp add: map_update list_update_same_conv)
next
  case False
  then show ?thesis by (simp add: list_update_beyond)
qed

lemma digest_rendering_input_update:
  assumes "input_digest_form fh ti' = input_digest_form fh (Inputs t ! i)"
  shows "digest_rendering fh (t\<lparr>Inputs := (Inputs t)[i := ti']\<rparr>) = digest_rendering fh t"
  using map_list_update_same [of "input_digest_form fh" ti' "Inputs t" i] assms
  by (simp add: digest_rendering_def)

text \<open>
  Claim C3. Replacing the SignatureScript of input \<open>i\<close> by any bytes \<open>s\<close>, everything else
  unchanged, leaves Hash(t) unchanged (an index beyond the inputs replaces nothing).
\<close>

theorem Hash_ignores_SignatureScript:
  "TxData_Hash sha3 fastHash
     (t\<lparr>Inputs := (Inputs t)[i := (Inputs t ! i)\<lparr>SignatureScript := s\<rparr>]\<rparr>)
   = TxData_Hash sha3 fastHash t"
  by (simp add: TxData_Hash_def TxData_writeTo_zero digest_rendering_input_update
      input_digest_form_SignatureScript)

text \<open>
  Claim C10. Replacing the AssetAmount (AssetID and Amount) and the PrevScript of input
  \<open>i\<close> by any values, everything else unchanged, leaves Hash(t) unchanged: the rendering
  at serflags = 0 leaves the prevout fields out.
\<close>

theorem Hash_ignores_prevout_fields:
  "TxData_Hash sha3 fastHash
     (t\<lparr>Inputs := (Inputs t)[i := (Inputs t ! i)\<lparr>ti_AssetAmount := a, PrevScript := p\<rparr>]\<rparr>)
   = TxData_Hash sha3 fastHash t"
  by (simp add: TxData_Hash_def TxData_writeTo_zero digest_rendering_input_update
      input_digest_form_prevout)

section \<open>Reading back what was written\<close>

lemma strip_cont_bit: "((b :: byte) OR 0x80) AND 0x7f = b AND mask 7"
proof -
  have a: "(0x7f :: byte) = mask 7" by (simp add: mask_eq_exp_minus_1)
  have b: "(0x80 :: byte) = 2 ^ 7" by simp
  show ?thesis
    apply (simp only: a b)
    apply (rule bit_eqI)
    apply (simp only: bit_simps)
    apply auto
    done
qed

lemma uvarint_group_core:
  fixes v :: uint64
  shows "ucast ((ucast v :: byte) AND mask 7) OR push_bit 7 (drop_bit 7 v) = v"
proof (rule bit_eqI)
  fix n
  show "bit (ucast ((ucast v :: byte) AND mask 7) OR push_bit 7 (drop_bit 7 v)) n = bit v n"
  proof (cases "n < 7")
    case True
    then show ?thesis by (auto simp: bit_simps)
  next
    case False
    then have "7 + (n - 7) = n" by simp
    with False show ?thesis by (auto simp: bit_simps dest: bit_imp_le_length)
  qed
qed

lemma uvarint_group_split:
  fixes v x :: uint64
  shows "(x OR push_bit s (ucast (((ucast v :: byte) OR 0x80) AND 0x7f)))
           OR push_bit (s + 7) (drop_bit 7 v)
         = x OR push_bit s v"
proof -
  have "push_bit s (ucast ((ucast v :: byte) AND mask 7)) OR push_bit (s + 7) (drop_bit 7 v)
        = push_bit s (ucast ((ucast v :: byte) AND mask 7) OR push_bit 7 (drop_bit 7 v))"
    by (simp add: push_bit_or push_bit_add add.commute push_bit_push_bit)
  then show ?thesis
    by (simp add: strip_cont_bit uvarint_group_core or.assoc)
qed

lemma cont_byte_not_less: "\<not> ((b :: byte) OR 0x80) < 0x80"
  by (simp add: not_less le_word_or1)

lemma last_byte_ucast:
  fixes v :: uint64
  assumes "unat v < 128"
  shows "ucast (ucast v :: byte) = v"
proof -
  have "unat (ucast (ucast v :: byte) :: uint64) = unat v"
    using assms by (simp add: unsigned_ucast_eq take_bit_eq_mod unat_mod)
  then show ?thesis by (simp add: word_unat_eq_iff)
qed

lemma last_byte_unat:
  fixes v :: uint64
  assumes "unat v < 128"
  shows "unat (ucast v :: byte) = unat v"
  using assms by (simp add: unsigned_ucast_eq take_bit_eq_mod unat_mod)

lemma readUvarint_loop_PutUvarint:
  "i \<le> 9 \<Longrightarrow> s = 7 * i \<Longrightarrow> unat v < 2 ^ (64 - 7 * i) \<Longrightarrow>
   readUvarint_loop x s i (PutUvarint v @ rest) = (x OR push_bit s v, None, rest)"
proof (induction v arbitrary: x s i rule: PutUvarint.induct)
  case (1 v)
  show ?case
  proof (cases "0x80 \<le> v")
    case True
    then have big: "128 \<le> unat v" by (simp add: word_le_nat_alt)
    have i8: "i \<le> 8"
    proof (rule ccontr)
      assume "\<not> i \<le> 8"
      with "1.prems" have "i = 9" by simp
      with "1.prems" big show False by simp
    qed
    then have "64 - 7 * i = 7 + (64 - 7 * (i + 1))" by simp
    then have "(2::nat) ^ (64 - 7 * i) = 2 ^ 7 * 2 ^ (64 - 7 * (i + 1))"
      by (simp only: power_add)
    then have "(2::nat) ^ (64 - 7 * i) = 128 * 2 ^ (64 - 7 * (i + 1))"
      by simp
    with "1.prems" have small: "unat (drop_bit 7 v) < 2 ^ (64 - 7 * (i + 1))"
      by (simp add: drop_bit_eq_div unat_div)
    have "readUvarint_loop x s i (PutUvarint v @ rest)
        = readUvarint_loop (x OR push_bit s (ucast (((ucast v :: byte) OR 0x80) AND 0x7f)))
            (s + 7) (i + 1) (PutUvarint (drop_bit 7 v) @ rest)"
      using True by (subst PutUvarint.simps) (simp add: cont_byte_not_less)
    also have "\<dots> = ((x OR push_bit s (ucast (((ucast v :: byte) OR 0x80) AND 0x7f)))
                       OR push_bit (s + 7) (drop_bit 7 v), None, rest)"
    proof (rule "1.IH" [OF True _ _ small])
      show "i + 1 \<le> 9" using i8 by simp
      show "s + 7 = 7 * (i + 1)" using "1.prems" by simp
    qed
    finally show ?thesis by (simp only: uvarint_group_split)
  next
    case False
    then have v: "unat v < 128" by (simp add: word_le_nat_alt)
    have b: "(ucast v :: byte) < 0x80"
      using v by (simp add: word_less_nat_alt last_byte_unat)
    have one: "i = 9 \<Longrightarrow> \<not> 1 < (ucast v :: byte)"
      using "1.prems" v by (simp add: word_less_nat_alt last_byte_unat)
    show ?thesis
      using False b one "1.prems"(1)
      by (subst PutUvarint.simps) (auto simp: last_byte_ucast [OF v])
  qed
qed

lemma ReadUvarint_PutUvarint: "ReadUvarint (PutUvarint v @ rest) = (v, None, rest)"
proof -
  have "unat v < 2 ^ 64" using unsigned_less [of v] by simp
  then show ?thesis
    using readUvarint_loop_PutUvarint [of 0 0 v 0 rest] by (simp add: ReadUvarint_def)
qed

lemma unat_of_nat_len64: "n < 2 ^ 64 \<Longrightarrow> unat (of_nat n :: uint64) = n"
  by (simp add: unsigned_of_nat take_bit_nat_eq_self)

lemma ReadFull_exact:
  "length h = length buf \<Longrightarrow> ReadFull (h @ rest) buf = (h, None, rest)"
  by (simp add: ReadFull_def)

lemma ReadBytes_lengthPrefixed:
  assumes "length b \<le> maxlen" "length b < 2 ^ 64"
  shows "ReadBytes (lengthPrefixed b @ rest) maxlen = (b, None, rest)"
  using assms
  by (simp add: ReadBytes_def lengthPrefixed_def ReadUvarint_PutUvarint unat_of_nat_len64)

lemma ReadBytes_too_large:
  assumes "maxlen < length b" "length b < 2 ^ 64"
  shows "ReadBytes (lengthPrefixed b @ rest) maxlen = ([], Some FieldTooLarge, b @ rest)"
  using assms
  by (simp add: ReadBytes_def lengthPrefixed_def ReadUvarint_PutUvarint unat_of_nat_len64)

lemma ucast_32_64_32: "(ucast (ucast (x :: uint32) :: uint64) :: uint32) = x"
  by (rule bit_eqI) (auto simp: bit_simps dest: bit_imp_le_length)

lemma Outpoint_readFrom_WriteTo:
  assumes "length (op_Hash p) = 32"
  shows "Outpoint_readFrom zeroOutpoint (Outpoint_WriteTo [] p @ rest) = (p, rest)"
  using assms
  by (simp add: Outpoint_readFrom_def Outpoint_WriteTo_def WriteUvarint_def zeroOutpoint_def
      zeroHash_def ReadFull_exact ReadUvarint_PutUvarint ucast_32_64_32)

lemma AssetAmount_readFrom_writeTo:
  assumes "length (AssetID a) = 32"
  shows "AssetAmount_readFrom zeroAssetAmount (AssetAmount_writeTo [] a @ rest) = (a, rest)"
  using assms
  by (simp add: AssetAmount_readFrom_def AssetAmount_writeTo_def WriteUvarint_def
      zeroAssetAmount_def zeroHash_def ReadFull_exact ReadUvarint_PutUvarint)


lemma serRequired_bits:
  "serRequired AND SerMetadata \<noteq> 0" "serRequired AND SerPrevout \<noteq> 0"
  "serRequired AND SerWitness \<noteq> 0"
  by (simp_all add: serRequired_def SerMetadata_def SerPrevout_def SerWitness_def)

lemma TxInput_writeTo_required:
  "TxInput_writeTo fh [] ti serRequired =
     Outpoint_WriteTo [] (Previous ti) @ AssetAmount_writeTo [] (ti_AssetAmount ti)
     @ lengthPrefixed (PrevScript ti) @ lengthPrefixed (SignatureScript ti)
     @ lengthPrefixed (ti_Metadata ti) @ lengthPrefixed (AssetDefinition ti)"
  by (simp add: TxInput_writeTo_def Let_def writeMetadata_def serRequired_bits
      WriteBytes_lengthPrefixed AssetAmount_writeTo_def Outpoint_WriteTo_def WriteUvarint_def)

lemma caps_lt: "metadataMaxByteLength < 2 ^ 64" "assetDefinitionMaxByteLength < 2 ^ 64"
  by (simp_all add: metadataMaxByteLength_def assetDefinitionMaxByteLength_def)

lemma TxInput_readFrom_writeTo:
  assumes sm: "scriptMax < 2 ^ 64" and wf: "wf_TxInput scriptMax ti"
  shows "TxInput_readFrom scriptMax zeroTxInput (TxInput_writeTo fh [] ti serRequired @ rest)
         = (ti, None, rest)"
proof -
  from wf have h: "length (op_Hash (Previous ti)) = 32"
    and a: "length (AssetID (ti_AssetAmount ti)) = 32"
    and ps: "length (PrevScript ti) \<le> scriptMax"
    and ss: "length (SignatureScript ti) \<le> scriptMax"
    and md: "length (ti_Metadata ti) \<le> metadataMaxByteLength"
    and ad: "length (AssetDefinition ti) \<le> assetDefinitionMaxByteLength"
    by (simp_all add: wf_TxInput_def)
  from ps ss sm have ps': "length (PrevScript ti) < 2 ^ 64"
    and ss': "length (SignatureScript ti) < 2 ^ 64"
    by simp_all
  from md ad caps_lt have md': "length (ti_Metadata ti) < 2 ^ 64"
    and ad': "length (AssetDefinition ti) < 2 ^ 64"
    by simp_all
  have prev: "zeroTxInput\<lparr>Previous := Previous ti, ti_AssetAmount := ti_AssetAmount ti,
      PrevScript := PrevScript ti, SignatureScript := SignatureScript ti,
      ti_Metadata := ti_Metadata ti, AssetDefinition := AssetDefinition ti\<rparr> = ti"
    by (simp add: zeroTxInput_def)
  show ?thesis
    unfolding TxInput_readFrom_def TxInput_writeTo_required
    by (simp add: zeroTxInput_def Outpoint_readFrom_WriteTo [OF h]
        AssetAmount_readFrom_writeTo [OF a]
        ReadBytes_lengthPrefixed [OF ps ps'] ReadBytes_lengthPrefixed [OF ss ss']
        ReadBytes_lengthPrefixed [OF md md'] ReadBytes_lengthPrefixed [OF ad ad'])
qed

lemma OutputCommitment_bytes_one:
  "OutputCommitment_bytes oc 1 =
     AssetAmount_writeTo [] (oc_AssetAmount oc) @ PutUvarint (ucast (oc_VMVersion oc))
     @ lengthPrefixed (ControlProgram oc)"
  by (simp add: OutputCommitment_bytes_def WriteBytes_lengthPrefixed WriteUvarint_def)

lemma TxOutput_writeTo_required:
  "TxOutput_writeTo fh [] to serRequired =
     PutUvarint (ucast (AssetVersion to))
     @ lengthPrefixed (OutputCommitment_bytes (to_OutputCommitment to) (AssetVersion to))
     @ lengthPrefixed (ReferenceData to) @ lengthPrefixed []"
  by (simp add: TxOutput_writeTo_def OutputCommitment_writeTo_def Let_def writeMetadata_def
      serRequired_bits WriteBytes_lengthPrefixed WriteUvarint_def)

lemma OutputCommitment_readFrom_envelope:
  assumes sm: "scriptMax < 2 ^ 64" and cm: "commitmentMax < 2 ^ 64"
    and a: "length (AssetID (oc_AssetAmount oc)) = 32"
    and cp: "length (ControlProgram oc) \<le> scriptMax"
    and env: "length (OutputCommitment_bytes oc 1) \<le> commitmentMax"
  shows "OutputCommitment_readFrom scriptMax commitmentMax zeroOutputCommitment
           (lengthPrefixed (OutputCommitment_bytes oc 1) @ rest) 1
         = (oc, None, rest)"
proof -
  from cp sm have cp': "length (ControlProgram oc) < 2 ^ 64" by simp
  from env cm have env': "length (OutputCommitment_bytes oc 1) < 2 ^ 64" by simp
  have inner: "AssetAmount_readFrom zeroAssetAmount (OutputCommitment_bytes oc 1)
      = (oc_AssetAmount oc, PutUvarint (ucast (oc_VMVersion oc)) @ lengthPrefixed (ControlProgram oc))"
    unfolding OutputCommitment_bytes_one
    by (rule AssetAmount_readFrom_writeTo [OF a])
  have cpr: "ReadBytes (lengthPrefixed (ControlProgram oc)) scriptMax
      = (ControlProgram oc, None, [])"
    using ReadBytes_lengthPrefixed [OF cp cp', of "[]"] by simp
  show ?thesis
    unfolding OutputCommitment_readFrom_def
    by (simp add: ReadBytes_lengthPrefixed [OF env env'] zeroOutputCommitment_def inner
        ReadUvarint_PutUvarint cpr ucast_32_64_32)
qed

lemma TxOutput_readFrom_writeTo:
  assumes sm: "scriptMax < 2 ^ 64" and cm: "commitmentMax < 2 ^ 64"
    and wf: "wf_TxOutput scriptMax commitmentMax to"
  shows "TxOutput_readFrom scriptMax commitmentMax zeroTxOutput
           (TxOutput_writeTo fh [] to serRequired @ rest)
         = (to, None, rest)"
proof -
  from wf have v: "AssetVersion to = 1"
    and a: "length (AssetID (oc_AssetAmount (to_OutputCommitment to))) = 32"
    and cp: "length (ControlProgram (to_OutputCommitment to)) \<le> scriptMax"
    and env: "length (OutputCommitment_bytes (to_OutputCommitment to) 1) \<le> commitmentMax"
    and rd: "length (ReferenceData to) \<le> metadataMaxByteLength"
    by (auto simp: wf_TxOutput_def)
  from rd caps_lt have rd': "length (ReferenceData to) < 2 ^ 64" by simp
  have empty: "\<And>r. ReadBytes (lengthPrefixed [] @ r) commitmentMax = ([], None, r)"
    by (rule ReadBytes_lengthPrefixed) simp_all
  have whole: "\<lparr>AssetVersion = 1, to_OutputCommitment = to_OutputCommitment to,
      ReferenceData = ReferenceData to\<rparr> = to"
    using v by simp
  show ?thesis
    unfolding TxOutput_readFrom_def TxOutput_writeTo_required v
    by (simp add: ReadUvarint_PutUvarint zeroTxOutput_def zeroOutputCommitment_def [symmetric]
        OutputCommitment_readFrom_envelope [OF sm cm a cp env]
        ReadBytes_lengthPrefixed [OF rd rd'] empty whole)
qed


lemma readInputs_written:
  assumes sm: "scriptMax < 2 ^ 64" and wf: "list_all (wf_TxInput scriptMax) xs"
  shows "readInputs scriptMax (length xs) acc
           (concat (map (\<lambda>ti. TxInput_writeTo fh [] ti serRequired) xs) @ rest)
         = (acc @ xs, None, rest)"
  using wf
proof (induction xs arbitrary: acc)
  case Nil
  show ?case by simp
next
  case (Cons x xs)
  then have x: "wf_TxInput scriptMax x" and xs: "list_all (wf_TxInput scriptMax) xs"
    by simp_all
  show ?case
    using Cons.IH [OF xs, of "acc @ [x]"]
    by (simp add: TxInput_readFrom_writeTo [OF sm x])
qed

lemma readOutputs_written:
  assumes sm: "scriptMax < 2 ^ 64" and cm: "commitmentMax < 2 ^ 64"
    and wf: "list_all (wf_TxOutput scriptMax commitmentMax) xs"
  shows "readOutputs scriptMax commitmentMax (length xs) acc
           (concat (map (\<lambda>to. TxOutput_writeTo fh [] to serRequired) xs) @ rest)
         = (acc @ xs, None, rest)"
  using wf
proof (induction xs arbitrary: acc)
  case Nil
  show ?case by simp
next
  case (Cons x xs)
  then have x: "wf_TxOutput scriptMax commitmentMax x"
    and xs: "list_all (wf_TxOutput scriptMax commitmentMax) xs"
    by simp_all
  show ?case
    using Cons.IH [OF xs, of "acc @ [x]"]
    by (simp add: TxOutput_readFrom_writeTo [OF sm cm x])
qed

lemma TxData_readFrom_body:
  assumes sm: "scriptMax < 2 ^ 64" and cm: "commitmentMax < 2 ^ 64"
    and wf: "wf_body scriptMax commitmentMax t"
  shows "TxData_readFrom scriptMax commitmentMax zeroTxData
           (TxData_writeTo fh [] t serRequired @ rest)
         = (case ReadBytes (lengthPrefixed (tx_Metadata t) @ rest) metadataMaxByteLength of
              (b, err, r) \<Rightarrow> (t\<lparr>tx_Metadata := b\<rparr>, err, r))"
proof -
  from wf have fl: "SerFlags t = serRequired"
    and ni: "length (Inputs t) < 2 ^ 64" and no: "length (Outputs t) < 2 ^ 64"
    and wi: "list_all (wf_TxInput scriptMax) (Inputs t)"
    and wo: "list_all (wf_TxOutput scriptMax commitmentMax) (Outputs t)"
    by (simp_all add: wf_body_def)
  have first: "\<And>r. ReadFull (serRequired # r) [0] = ([serRequired], None, r)"
    by (simp add: ReadFull_def)
  have whole: "\<And>b. \<lparr>SerFlags = serRequired, Version = Version t, Inputs = Inputs t,
      Outputs = Outputs t, MinTime = MinTime t, MaxTime = MaxTime t, tx_Metadata = b\<rparr>
      = t\<lparr>tx_Metadata := b\<rparr>"
    using fl by simp
  show ?thesis
    unfolding TxData_readFrom_def TxData_writeTo_bytes
    by (simp add: first ReadUvarint_PutUvarint ucast_32_64_32 zeroTxData_def
        unat_of_nat_len64 [OF ni] unat_of_nat_len64 [OF no]
        readInputs_written [OF sm wi, of "[]", simplified]
        readOutputs_written [OF sm cm wo, of "[]", simplified]
        writeMetadata_def serRequired_bits WriteBytes_lengthPrefixed whole
        split: prod.split)
qed

text \<open>
  Claim C4. For a well-formed TxData \<open>t\<close> (SerFlags 0x07, every output of AssetVersion 1,
  every length-capped field within its cap), decoding the bytes written for \<open>t\<close> with
  serflags 0x07 succeeds and gives \<open>t\<close> back, field for field and in order. The two caps
  that the sources do not declare are any numbers below \<open>2 ^ 64\<close>.
\<close>

theorem decode_encode_roundtrip:
  assumes "scriptMax < 2 ^ 64" and "commitmentMax < 2 ^ 64"
    and "wellformed scriptMax commitmentMax t"
  shows "decode scriptMax commitmentMax (TxData_Value fastHash t) = Inr t"
proof -
  from assms(3) have body: "wf_body scriptMax commitmentMax t"
    and md: "length (tx_Metadata t) \<le> metadataMaxByteLength"
    by (simp_all add: wellformed_def)
  from md caps_lt have md': "length (tx_Metadata t) < 2 ^ 64" by simp
  have "TxData_readFrom scriptMax commitmentMax zeroTxData (TxData_Value fastHash t)
        = (t, None, [])"
    using TxData_readFrom_body [OF assms(1,2) body, of fastHash "[]"]
      ReadBytes_lengthPrefixed [OF md md', of "[]"]
    by (simp add: TxData_Value_def)
  then show ?thesis
    by (simp add: decode_def TxData_Scan_def)
qed

lemma example_wf_body: "wf_body 10 100 example_tx"
  by (simp add: wf_body_def example_tx_def example_input_def example_output_def
      wf_TxInput_def wf_TxOutput_def serRequired_def metadataMaxByteLength_def
      assetDefinitionMaxByteLength_def OutputCommitment_bytes_def WriteBytes_def
      WriteUvarint_def AssetAmount_writeTo_def PutUvarint.simps)

text \<open>The round trip on the example transaction, whose fields are all non-empty.\<close>

theorem decode_encode_roundtrip_witness:
  "(10::nat) < 2 ^ 64 \<and> (100::nat) < 2 ^ 64 \<and> wellformed 10 100 example_tx
   \<and> decode 10 100 (TxData_Value id example_tx) = Inr example_tx"
proof -
  have wf: "wellformed 10 100 example_tx"
    using example_wf_body
    by (simp add: wellformed_def example_tx_def metadataMaxByteLength_def)
  show ?thesis
    using decode_encode_roundtrip [of 10 100 example_tx id] wf by simp
qed

section \<open>Decode errors\<close>

text \<open>
  Claim C7. A stream whose first byte is not 0x07 is rejected with the unsupported-serflags
  error, whatever follows: \<^verbatim>\<open>readFrom\<close> returns the error having set only SerFlags and read
  only that byte, and \<open>decode\<close> produces no TxData.
\<close>

theorem unsupported_serflags_rejected:
  assumes "b \<noteq> 0x07"
  shows "TxData_readFrom scriptMax commitmentMax tx (b # rest)
           = (tx\<lparr>SerFlags := b\<rparr>, Some (UnsupportedFlags b), rest)
         \<and> decode scriptMax commitmentMax (b # rest) = Inl (UnsupportedFlags b)"
proof -
  have "TxData_readFrom scriptMax commitmentMax tx (b # rest)
        = (tx\<lparr>SerFlags := b\<rparr>, Some (UnsupportedFlags b), rest)" for tx
    using assms by (simp add: TxData_readFrom_def ReadFull_def serRequired_def)
  then show ?thesis
    by (simp add: decode_def TxData_Scan_def)
qed

theorem unsupported_serflags_rejected_witness:
  "(6 :: byte) \<noteq> 0x07
   \<and> TxData_readFrom 10 100 zeroTxData (6 # [1, 0, 0, 0, 0, 0])
       = (zeroTxData\<lparr>SerFlags := 6\<rparr>, Some (UnsupportedFlags 6), [1, 0, 0, 0, 0, 0])
   \<and> decode 10 100 (6 # [1, 0, 0, 0, 0, 0]) = Inl (UnsupportedFlags 6)"
  using unsupported_serflags_rejected [of 6 10 100 zeroTxData "[1, 0, 0, 0, 0, 0]"] by simp

lemma wf_body_Metadata: "wf_body sm cm (t\<lparr>tx_Metadata := m\<rparr>) = wf_body sm cm t"
  by (simp add: wf_body_def)

text \<open>
  Claim C8. Take a transaction whose other fields are well-formed. If its transaction-level
  metadata is exactly 500,000 bytes long, decoding its encoding succeeds and gives it
  back; if the metadata is 500,001 bytes long, decoding fails with the field-too-large
  error. The boundary is that of \<open>ReadBytes\<close>, which is modelled from the spec.
\<close>

theorem metadata_cap_boundary:
  assumes "scriptMax < 2 ^ 64" and "commitmentMax < 2 ^ 64"
    and "wf_body scriptMax commitmentMax t"
  shows "(length m = 500000 \<longrightarrow>
            decode scriptMax commitmentMax (TxData_Value fastHash (t\<lparr>tx_Metadata := m\<rparr>))
            = Inr (t\<lparr>tx_Metadata := m\<rparr>))
       \<and> (length m = 500001 \<longrightarrow>
            decode scriptMax commitmentMax (TxData_Value fastHash (t\<lparr>tx_Metadata := m\<rparr>))
            = Inl FieldTooLarge)"
proof -
  have body: "wf_body scriptMax commitmentMax (t\<lparr>tx_Metadata := m\<rparr>)"
    using assms(3) by (simp add: wf_body_Metadata)
  have rd: "TxData_readFrom scriptMax commitmentMax zeroTxData
              (TxData_Value fastHash (t\<lparr>tx_Metadata := m\<rparr>))
            = (case ReadBytes (lengthPrefixed m) metadataMaxByteLength of
                 (b, err, r) \<Rightarrow> (t\<lparr>tx_Metadata := b\<rparr>, err, r))"
    using TxData_readFrom_body [OF assms(1,2) body, of fastHash "[]"]
    by (simp add: TxData_Value_def)
  have ok: "decode scriptMax commitmentMax (TxData_Value fastHash (t\<lparr>tx_Metadata := m\<rparr>))
            = Inr (t\<lparr>tx_Metadata := m\<rparr>)" if "length m = 500000"
  proof -
    from that have "length m \<le> metadataMaxByteLength" "length m < 2 ^ 64"
      by (simp_all add: metadataMaxByteLength_def)
    from ReadBytes_lengthPrefixed [OF this, of "[]"] show ?thesis
      by (simp add: decode_def TxData_Scan_def rd)
  qed
  have bad: "decode scriptMax commitmentMax (TxData_Value fastHash (t\<lparr>tx_Metadata := m\<rparr>))
            = Inl FieldTooLarge" if "length m = 500001"
  proof -
    from that have "metadataMaxByteLength < length m" "length m < 2 ^ 64"
      by (simp_all add: metadataMaxByteLength_def)
    from ReadBytes_too_large [OF this, of "[]"] show ?thesis
      by (simp add: decode_def TxData_Scan_def rd)
  qed
  from ok bad show ?thesis by blast
qed

theorem metadata_cap_boundary_witness:
  "(10::nat) < 2 ^ 64 \<and> (100::nat) < 2 ^ 64 \<and> wf_body 10 100 example_tx
   \<and> length (replicate 500000 (0::byte)) = 500000
   \<and> decode 10 100 (TxData_Value id (example_tx\<lparr>tx_Metadata := replicate 500000 0\<rparr>))
       = Inr (example_tx\<lparr>tx_Metadata := replicate 500000 0\<rparr>)
   \<and> length (replicate 500001 (0::byte)) = 500001
   \<and> decode 10 100 (TxData_Value id (example_tx\<lparr>tx_Metadata := replicate 500001 0\<rparr>))
       = Inl FieldTooLarge"
  using metadata_cap_boundary [of 10 100 example_tx "replicate 500000 0" id]
    metadata_cap_boundary [of 10 100 example_tx "replicate 500001 0" id]
    example_wf_body
  by simp

section \<open>Tx and its cached hash\<close>

text \<open>
  Claim C9. The constructors keep Tx.Hash equal to the hash of Tx.TxData: NewTx(data)
  holds \<open>data\<close> and \<open>data.Hash()\<close>, and whenever Tx.UnmarshalText returns no error, the Hash
  field of the receiver is the hash of the TxData it now holds.
\<close>

theorem Tx_constructors_keep_Hash:
  "tx_TxData (NewTx sha3 fastHash data) = data
   \<and> tx_Hash (NewTx sha3 fastHash data) = TxData_Hash sha3 fastHash data
   \<and> (snd (Tx_UnmarshalText sha3 fastHash scriptMax commitmentMax tx p) = None \<longrightarrow>
        tx_Hash (fst (Tx_UnmarshalText sha3 fastHash scriptMax commitmentMax tx p))
        = TxData_Hash sha3 fastHash
            (tx_TxData (fst (Tx_UnmarshalText sha3 fastHash scriptMax commitmentMax tx p))))"
  by (simp add: NewTx_def Tx_UnmarshalText_def split: prod.split option.split)

text \<open>
  UnmarshalText on the text \<^verbatim>\<open>07010000000000\<close> (version 1, no inputs, no outputs, empty
  metadata) succeeds.
\<close>

theorem Tx_constructors_keep_Hash_witness:
  "Tx_UnmarshalText id id 10 100 \<lparr>tx_TxData = zeroTxData, tx_Hash = [], Stored = False\<rparr>
     [0x30, 0x37, 0x30, 0x31, 0x30, 0x30, 0x30, 0x30, 0x30, 0x30, 0x30, 0x30, 0x30, 0x30]
   = (\<lparr>tx_TxData = zeroTxData\<lparr>SerFlags := 7, Version := 1\<rparr>,
       tx_Hash = TxData_Hash id id (zeroTxData\<lparr>SerFlags := 7, Version := 1\<rparr>),
       Stored = False\<rparr>, None)"
proof -
  let ?r = "Tx_UnmarshalText id id 10 100 \<lparr>tx_TxData = zeroTxData, tx_Hash = [], Stored = False\<rparr>
     [0x30, 0x37, 0x30, 0x31, 0x30, 0x30, 0x30, 0x30, 0x30, 0x30, 0x30, 0x30, 0x30, 0x30]"
  have hex: "hex_Decode [0x30, 0x37, 0x30, 0x31, 0x30, 0x30, 0x30, 0x30, 0x30, 0x30, 0x30, 0x30,
      0x30, 0x30] = Inr [7, 1, 0, 0, 0, 0, 0]"
    by (simp add: fromHexChar_def)
  have rd: "TxData_readFrom 10 100 zeroTxData [7, 1, 0, 0, 0, 0, 0]
      = (zeroTxData\<lparr>SerFlags := 7, Version := 1\<rparr>, None, [])"
    by (simp add: TxData_readFrom_def ReadFull_def serRequired_def ReadUvarint_def ReadBytes_def
        zeroTxData_def)
  have um: "TxData_UnmarshalText 10 100 zeroTxData
      [0x30, 0x37, 0x30, 0x31, 0x30, 0x30, 0x30, 0x30, 0x30, 0x30, 0x30, 0x30, 0x30, 0x30]
      = (zeroTxData\<lparr>SerFlags := 7, Version := 1\<rparr>, None)"
    unfolding TxData_UnmarshalText_def hex by (simp add: rd)
  have d: "tx_TxData (fst ?r) = zeroTxData\<lparr>SerFlags := 7, Version := 1\<rparr>"
    and e: "snd ?r = None" and st: "Stored (fst ?r) = False"
    unfolding Tx_UnmarshalText_def by (simp_all add: um)
  from e have "tx_Hash (fst ?r) = TxData_Hash id id (tx_TxData (fst ?r))"
    using Tx_constructors_keep_Hash [of id id example_tx 10 100
        "\<lparr>tx_TxData = zeroTxData, tx_Hash = [], Stored = False\<rparr>"
        "[0x30, 0x37, 0x30, 0x31, 0x30, 0x30, 0x30, 0x30, 0x30, 0x30, 0x30, 0x30, 0x30, 0x30]"]
    by simp
  with d e st show ?thesis
    by (cases ?r) (simp add: Tx.equality)
qed

section \<open>Signature hashes: issuance inputs and SINGLE beyond the outputs\<close>

lemma PutUvarint_0: "PutUvarint 0 = [0]"
  by (simp add: PutUvarint.simps)

lemma sig_inputsHash_tx: "sh_tx (snd (sig_inputsHash K sha3 fh s hashType)) = sh_tx s"
  by (simp add: sig_inputsHash_def getInputsHash_def Let_def split: option.split)

lemma sig_outputsHash_tx: "sh_tx (snd (sig_outputsHash K sha3 fh s idx hashType)) = sh_tx s"
  by (simp add: sig_outputsHash_def getAllOutputsHash_def Let_def split: option.split)

lemma SigHasher_Hash_unfold:
  assumes "0 \<le> idx" and "idx < int (length (Inputs (sh_tx s)))"
  shows "SigHasher_Hash K sha3 fh s idx hashType =
     (case sig_inputsHash K sha3 fh s hashType of
        (ih, s1) \<Rightarrow>
          (case sig_outputsHash K sha3 fh s1 idx hashType of
             (None, s2) \<Rightarrow> Inl NilDereference
           | (Some oh, s2) \<Rightarrow>
               Inr (sha3 (PutUvarint (ucast (Version (sh_tx s))) @ ih
                          @ TxInput_writeTo fh [] (Inputs (sh_tx s) ! nat idx) 0
                          @ lengthPrefixed (sig_outputCommitment (Inputs (sh_tx s) ! nat idx))
                          @ oh
                          @ PutUvarint (MinTime (sh_tx s)) @ PutUvarint (MaxTime (sh_tx s))
                          @ lengthPrefixed (fh (tx_Metadata (sh_tx s)))
                          @ [ucast hashType]), s2)))"
proof -
  obtain ih s1 where a: "sig_inputsHash K sha3 fh s hashType = (ih, s1)"
    by (cases "sig_inputsHash K sha3 fh s hashType")
  obtain oh s2 where b: "sig_outputsHash K sha3 fh s1 idx hashType = (oh, s2)"
    by (cases "sig_outputsHash K sha3 fh s1 idx hashType")
  have t1: "sh_tx s1 = sh_tx s" using sig_inputsHash_tx [of K sha3 fh s hashType] a by simp
  have t2: "sh_tx s2 = sh_tx s" using sig_outputsHash_tx [of K sha3 fh s1 idx hashType] b t1 by simp
  show ?thesis
    using assms
    by (simp add: SigHasher_Hash_def SigHasher_Hash_written_def a b t1 t2 Let_def
        writeInput_def WriteUvarint_def WriteBytes_lengthPrefixed writeMetadata_def
        TxInput_writeTo_append [of fh "_ @ _"] split: option.split)
qed

text \<open>
  Claim C5. IsIssuance holds exactly when Previous.Index is 0xFFFFFFFF. For an issuance
  input the outputCommitment of \<^verbatim>\<open>SigHasher.Hash\<close> is empty, so what is written for it is the
  length-prefixed empty field, the single byte 0: with a valid index \<open>idx\<close> of an issuance
  input, the bytes hashed are the version, the inputsHash, the input at serflags 0, that
  byte 0, the outputsHash, MinTime, MaxTime, the metadata digest and the hash type (and a
  hash type whose base is none of the three panics on the nil outputsHash).
\<close>

theorem issuance_semantics:
  "IsIssuance ti = (op_Index (Previous ti) = 0xFFFFFFFF)
   \<and> (IsIssuance ti \<longrightarrow> sig_outputCommitment ti = [] \<and> WriteBytes w (sig_outputCommitment ti) = w @ [0])
   \<and> (0 \<le> idx \<and> idx < int (length (Inputs (sh_tx s)))
        \<and> IsIssuance (Inputs (sh_tx s) ! nat idx) \<longrightarrow>
       SigHasher_Hash K sha3 fastHash s idx hashType =
         (case sig_inputsHash K sha3 fastHash s hashType of
            (ih, s1) \<Rightarrow>
              (case sig_outputsHash K sha3 fastHash s1 idx hashType of
                 (None, s2) \<Rightarrow> Inl NilDereference
               | (Some oh, s2) \<Rightarrow>
                   Inr (sha3 (PutUvarint (ucast (Version (sh_tx s))) @ ih
                              @ TxInput_writeTo fastHash [] (Inputs (sh_tx s) ! nat idx) 0
                              @ [0]
                              @ oh
                              @ PutUvarint (MinTime (sh_tx s)) @ PutUvarint (MaxTime (sh_tx s))
                              @ lengthPrefixed (fastHash (tx_Metadata (sh_tx s)))
                              @ [ucast hashType]), s2))))"
proof -
  have empty: "sig_outputCommitment ti = []" if "IsIssuance ti" for ti
    using that by (simp add: sig_outputCommitment_def)
  have one: "lengthPrefixed [] = [0]"
    by (simp add: lengthPrefixed_def PutUvarint_0)
  have first: "IsIssuance ti = (op_Index (Previous ti) = 0xFFFFFFFF)"
    by (simp add: IsIssuance_def InvalidOutputIndex_def)
  have second: "IsIssuance ti \<longrightarrow>
      sig_outputCommitment ti = [] \<and> WriteBytes w (sig_outputCommitment ti) = w @ [0]"
    by (simp add: empty WriteBytes_lengthPrefixed one)
  have third: "SigHasher_Hash K sha3 fastHash s idx hashType =
         (case sig_inputsHash K sha3 fastHash s hashType of
            (ih, s1) \<Rightarrow>
              (case sig_outputsHash K sha3 fastHash s1 idx hashType of
                 (None, s2) \<Rightarrow> Inl NilDereference
               | (Some oh, s2) \<Rightarrow>
                   Inr (sha3 (PutUvarint (ucast (Version (sh_tx s))) @ ih
                              @ TxInput_writeTo fastHash [] (Inputs (sh_tx s) ! nat idx) 0
                              @ [0]
                              @ oh
                              @ PutUvarint (MinTime (sh_tx s)) @ PutUvarint (MaxTime (sh_tx s))
                              @ lengthPrefixed (fastHash (tx_Metadata (sh_tx s)))
                              @ [ucast hashType]), s2)))"
    if "0 \<le> idx" and "idx < int (length (Inputs (sh_tx s)))"
      and "IsIssuance (Inputs (sh_tx s) ! nat idx)"
    unfolding SigHasher_Hash_unfold [OF that(1,2)] empty [OF that(3)] one ..
  from first second third show ?thesis by blast
qed

lemma example_sig_inputsHash:
  "sig_inputsHash example_consts sha3 fh s 0x82 = (zeroHash, s)"
  "sig_inputsHash example_consts sha3 fh s 0x83 = (zeroHash, s)"
  by (simp_all add: sig_inputsHash_def example_consts_def)

lemma example_sig_outputsHash:
  "sig_outputsHash example_consts sha3 fh s idx 0x82 = (Some zeroHash, s)"
  by (simp add: sig_outputsHash_def example_consts_def)

text \<open>The example input is an issuance input; signing it with NONE | ANYONECANPAY.\<close>

theorem issuance_semantics_witness:
  "IsIssuance example_input
   \<and> sig_outputCommitment example_input = []
   \<and> WriteBytes [] (sig_outputCommitment example_input) = [] @ [0]
   \<and> (0::int) \<le> 0 \<and> (0::int) < int (length (Inputs (sh_tx (NewSigHasher example_tx))))
   \<and> IsIssuance (Inputs (sh_tx (NewSigHasher example_tx)) ! nat 0)
   \<and> SigHasher_Hash example_consts id id (NewSigHasher example_tx) 0 0x82
       = Inr (PutUvarint 1 @ zeroHash @ TxInput_writeTo id [] example_input 0 @ [0]
              @ zeroHash @ PutUvarint 0 @ PutUvarint 1000 @ lengthPrefixed [9] @ [0x82],
              NewSigHasher example_tx)"
proof -
  have iss: "IsIssuance example_input"
    by (simp add: IsIssuance_def example_input_def InvalidOutputIndex_def)
  have tx: "sh_tx (NewSigHasher example_tx) = example_tx"
    by (simp add: NewSigHasher_def)
  have ins: "Inputs example_tx = [example_input]" "Version example_tx = 1"
    "MinTime example_tx = 0" "MaxTime example_tx = 1000" "tx_Metadata example_tx = [9]"
    by (simp_all add: example_tx_def)
  show ?thesis
    using issuance_semantics [of example_input "[]" 0 "NewSigHasher example_tx" example_consts
        id id "0x82"] iss
    by (simp add: tx ins example_sig_inputsHash example_sig_outputsHash
        WriteBytes_lengthPrefixed lengthPrefixed_def PutUvarint_0)
qed

text \<open>
  Claim C6. Let the three base types be distinct constants, \<open>singleType\<close> a hash type whose
  base is SINGLE and \<open>noneType\<close> one whose base is NONE. For an index \<open>idx\<close> of an input with
  no output at that index, the outputsHash contribution for \<open>singleType\<close> is the all-zero
  Hash, the same as for \<open>noneType\<close>, and it is what \<^verbatim>\<open>SigHasher.Hash\<close> writes into the final
  digest.
\<close>

theorem single_beyond_outputs_is_zero:
  assumes "SigHashSingle K \<noteq> SigHashAll K" and "SigHashSingle K \<noteq> SigHashNone K"
    and "SigHashNone K \<noteq> SigHashAll K"
    and "singleType AND sigHashMask K = SigHashSingle K"
    and "noneType AND sigHashMask K = SigHashNone K"
    and "int (length (Outputs (sh_tx s))) \<le> idx"
    and "idx < int (length (Inputs (sh_tx s)))"
  shows "sig_outputsHash K sha3 fastHash s idx singleType = (Some zeroHash, s)
       \<and> sig_outputsHash K sha3 fastHash s idx noneType = (Some zeroHash, s)
       \<and> SigHasher_Hash K sha3 fastHash s idx singleType =
           (case sig_inputsHash K sha3 fastHash s singleType of
              (ih, s1) \<Rightarrow>
                Inr (sha3 (PutUvarint (ucast (Version (sh_tx s))) @ ih
                           @ TxInput_writeTo fastHash [] (Inputs (sh_tx s) ! nat idx) 0
                           @ lengthPrefixed (sig_outputCommitment (Inputs (sh_tx s) ! nat idx))
                           @ zeroHash
                           @ PutUvarint (MinTime (sh_tx s)) @ PutUvarint (MaxTime (sh_tx s))
                           @ lengthPrefixed (fastHash (tx_Metadata (sh_tx s)))
                           @ [ucast singleType]), s1))"
proof -
  have single: "sig_outputsHash K sha3 fastHash s' idx singleType = (Some zeroHash, s')"
    if "sh_tx s' = sh_tx s" for s'
    using assms(1,2,4,6) that by (simp add: sig_outputsHash_def)
  have none: "sig_outputsHash K sha3 fastHash s idx noneType = (Some zeroHash, s)"
    using assms(3,5) by (simp add: sig_outputsHash_def)
  have nonneg: "0 \<le> idx" using assms(6) by simp
  obtain ih s1 where a: "sig_inputsHash K sha3 fastHash s singleType = (ih, s1)"
    by (cases "sig_inputsHash K sha3 fastHash s singleType")
  have t1: "sh_tx s1 = sh_tx s"
    using sig_inputsHash_tx [of K sha3 fastHash s singleType] a by simp
  have full: "SigHasher_Hash K sha3 fastHash s idx singleType =
           (case sig_inputsHash K sha3 fastHash s singleType of
              (ih, s1) \<Rightarrow>
                Inr (sha3 (PutUvarint (ucast (Version (sh_tx s))) @ ih
                           @ TxInput_writeTo fastHash [] (Inputs (sh_tx s) ! nat idx) 0
                           @ lengthPrefixed (sig_outputCommitment (Inputs (sh_tx s) ! nat idx))
                           @ zeroHash
                           @ PutUvarint (MinTime (sh_tx s)) @ PutUvarint (MaxTime (sh_tx s))
                           @ lengthPrefixed (fastHash (tx_Metadata (sh_tx s)))
                           @ [ucast singleType]), s1))"
    unfolding SigHasher_Hash_unfold [OF nonneg assms(7)] a
    by (simp add: single [OF t1])
  from single [of s] none full show ?thesis by simp
qed

text \<open>The example transaction without its output, input 0, SINGLE | ANYONECANPAY.\<close>

theorem single_beyond_outputs_is_zero_witness:
  "SigHashSingle example_consts \<noteq> SigHashAll example_consts
   \<and> SigHashSingle example_consts \<noteq> SigHashNone example_consts
   \<and> SigHashNone example_consts \<noteq> SigHashAll example_consts
   \<and> 0x83 AND sigHashMask example_consts = SigHashSingle example_consts
   \<and> 0x82 AND sigHashMask example_consts = SigHashNone example_consts
   \<and> int (length (Outputs (sh_tx (NewSigHasher (example_tx\<lparr>Outputs := []\<rparr>))))) \<le> 0
   \<and> 0 < int (length (Inputs (sh_tx (NewSigHasher (example_tx\<lparr>Outputs := []\<rparr>)))))
   \<and> sig_outputsHash example_consts id id (NewSigHasher (example_tx\<lparr>Outputs := []\<rparr>)) 0 0x83
       = (Some zeroHash, NewSigHasher (example_tx\<lparr>Outputs := []\<rparr>))
   \<and> sig_outputsHash example_consts id id (NewSigHasher (example_tx\<lparr>Outputs := []\<rparr>)) 0 0x82
       = (Some zeroHash, NewSigHasher (example_tx\<lparr>Outputs := []\<rparr>))
   \<and> SigHasher_Hash example_consts id id (NewSigHasher (example_tx\<lparr>Outputs := []\<rparr>)) 0 0x83
       = Inr (PutUvarint 1 @ zeroHash @ TxInput_writeTo id [] example_input 0 @ [0]
              @ zeroHash @ PutUvarint 0 @ PutUvarint 1000 @ lengthPrefixed [9] @ [0x83],
              NewSigHasher (example_tx\<lparr>Outputs := []\<rparr>))"
proof -
  let ?s = "NewSigHasher (example_tx\<lparr>Outputs := []\<rparr>)"
  have tx: "sh_tx ?s = example_tx\<lparr>Outputs := []\<rparr>"
    by (simp add: NewSigHasher_def)
  have ins: "Inputs example_tx = [example_input]" "Version example_tx = 1"
    "MinTime example_tx = 0" "MaxTime example_tx = 1000" "tx_Metadata example_tx = [9]"
    by (simp_all add: example_tx_def)
  have k: "SigHashSingle example_consts \<noteq> SigHashAll example_consts"
    "SigHashSingle example_consts \<noteq> SigHashNone example_consts"
    "SigHashNone example_consts \<noteq> SigHashAll example_consts"
    "0x83 AND sigHashMask example_consts = SigHashSingle example_consts"
    "0x82 AND sigHashMask example_consts = SigHashNone example_consts"
    by (simp_all add: example_consts_def)
  have oc: "lengthPrefixed (sig_outputCommitment example_input) = [0]"
    by (simp add: sig_outputCommitment_def IsIssuance_def example_input_def
        InvalidOutputIndex_def lengthPrefixed_def PutUvarint_0)
  show ?thesis
    using single_beyond_outputs_is_zero [OF k, of ?s 0 id id] k
    by (simp add: tx ins example_sig_inputsHash oc)
qed

section \<open>The hash commits to the digests of the metadata fields\<close>

lemma input_digest_form_Metadata:
  "fh m = fh (ti_Metadata ti) \<Longrightarrow>
   input_digest_form fh (ti\<lparr>ti_Metadata := m\<rparr>) = input_digest_form fh ti"
  by (simp add: input_digest_form_def)

lemma input_digest_form_AssetDefinition:
  "fh m = fh (AssetDefinition ti) \<Longrightarrow>
   input_digest_form fh (ti\<lparr>AssetDefinition := m\<rparr>) = input_digest_form fh ti"
  by (simp add: input_digest_form_def)

text \<open>
  Claim C2, as amended. Replacing the transaction-level Metadata, or the Metadata or the
  AssetDefinition of input \<open>i\<close>, by bytes \<open>m\<close> that have the same \<open>fastHash\<close> digest as the
  bytes they replace, everything else unchanged, leaves Hash(t) unchanged. (As the claim
  is written, for any bytes \<open>m\<close>, it fails: \<^verbatim>\<open>writeMetadata\<close> writes the digest of the field
  at serflags 0, so the hash depends on the field through its digest.)
\<close>

theorem Hash_commits_to_metadata_digests:
  "(fastHash m = fastHash (tx_Metadata t) \<longrightarrow>
      TxData_Hash sha3 fastHash (t\<lparr>tx_Metadata := m\<rparr>) = TxData_Hash sha3 fastHash t)
   \<and> (i < length (Inputs t) \<and> fastHash m = fastHash (ti_Metadata (Inputs t ! i)) \<longrightarrow>
      TxData_Hash sha3 fastHash
        (t\<lparr>Inputs := (Inputs t)[i := (Inputs t ! i)\<lparr>ti_Metadata := m\<rparr>]\<rparr>)
      = TxData_Hash sha3 fastHash t)
   \<and> (i < length (Inputs t) \<and> fastHash m = fastHash (AssetDefinition (Inputs t ! i)) \<longrightarrow>
      TxData_Hash sha3 fastHash
        (t\<lparr>Inputs := (Inputs t)[i := (Inputs t ! i)\<lparr>AssetDefinition := m\<rparr>]\<rparr>)
      = TxData_Hash sha3 fastHash t)"
proof -
  have a: "TxData_Hash sha3 fastHash (t\<lparr>tx_Metadata := m\<rparr>) = TxData_Hash sha3 fastHash t"
    if "fastHash m = fastHash (tx_Metadata t)"
    using that by (simp add: TxData_Hash_def TxData_writeTo_zero digest_rendering_def)
  have b: "TxData_Hash sha3 fastHash
        (t\<lparr>Inputs := (Inputs t)[i := (Inputs t ! i)\<lparr>ti_Metadata := m\<rparr>]\<rparr>)
      = TxData_Hash sha3 fastHash t"
    if "fastHash m = fastHash (ti_Metadata (Inputs t ! i))"
    using that
    by (simp add: TxData_Hash_def TxData_writeTo_zero digest_rendering_input_update
        input_digest_form_Metadata)
  have c: "TxData_Hash sha3 fastHash
        (t\<lparr>Inputs := (Inputs t)[i := (Inputs t ! i)\<lparr>AssetDefinition := m\<rparr>]\<rparr>)
      = TxData_Hash sha3 fastHash t"
    if "fastHash m = fastHash (AssetDefinition (Inputs t ! i))"
    using that
    by (simp add: TxData_Hash_def TxData_writeTo_zero digest_rendering_input_update
        input_digest_form_AssetDefinition)
  from a b c show ?thesis by blast
qed

text \<open>
  With a digest that keeps only the first byte, a second byte can be appended to each of
  the three fields of the example.
\<close>

theorem Hash_commits_to_metadata_digests_witness:
  "take 1 [9, 1] = take 1 (tx_Metadata example_tx)
   \<and> TxData_Hash id (take 1) (example_tx\<lparr>tx_Metadata := [9, 1]\<rparr>)
       = TxData_Hash id (take 1) example_tx
   \<and> (0::nat) < length (Inputs example_tx)
   \<and> take 1 [4, 1] = take 1 (ti_Metadata (Inputs example_tx ! 0))
   \<and> TxData_Hash id (take 1)
        (example_tx\<lparr>Inputs := (Inputs example_tx)[0 := (Inputs example_tx ! 0)\<lparr>ti_Metadata := [4, 1]\<rparr>]\<rparr>)
       = TxData_Hash id (take 1) example_tx
   \<and> take 1 [5, 1] = take 1 (AssetDefinition (Inputs example_tx ! 0))
   \<and> TxData_Hash id (take 1)
        (example_tx\<lparr>Inputs := (Inputs example_tx)[0 := (Inputs example_tx ! 0)\<lparr>AssetDefinition := [5, 1]\<rparr>]\<rparr>)
       = TxData_Hash id (take 1) example_tx"
proof -
  have h: "take 1 [9, 1] = take 1 (tx_Metadata example_tx)"
    "(0::nat) < length (Inputs example_tx)"
    "take 1 [4, 1] = take 1 (ti_Metadata (Inputs example_tx ! 0))"
    "take 1 [5, 1] = take 1 (AssetDefinition (Inputs example_tx ! 0))"
    by (simp_all add: example_tx_def example_input_def)
  from h Hash_commits_to_metadata_digests [of "take 1" "[9, 1]" example_tx id 0]
    Hash_commits_to_metadata_digests [of "take 1" "[4, 1]" example_tx id 0]
    Hash_commits_to_metadata_digests [of "take 1" "[5, 1]" example_tx id 0]
  show ?thesis by blast
qed

text \<open>
  With digests that do not collide (the identity for both \<open>sha3\<close> and \<open>fastHash\<close>), replacing
  the one metadata byte of the example transaction, the one metadata byte of its input, or
  the asset definition of its input changes the hash.
\<close>

theorem Hash_changes_with_Metadata_counterexample:
  "TxData_Hash id id (example_tx\<lparr>tx_Metadata := [10]\<rparr>) \<noteq> TxData_Hash id id example_tx
   \<and> TxData_Hash id id (example_tx\<lparr>Inputs := [example_input\<lparr>ti_Metadata := [10]\<rparr>]\<rparr>)
       \<noteq> TxData_Hash id id example_tx
   \<and> TxData_Hash id id (example_tx\<lparr>Inputs := [example_input\<lparr>AssetDefinition := [10]\<rparr>]\<rparr>)
       \<noteq> TxData_Hash id id example_tx"
  by (simp add: TxData_Hash_def TxData_writeTo_zero digest_rendering_def lengthPrefixed_def
      input_digest_form_def example_tx_def example_input_def)

lemma lengthPrefixed_inject: "(lengthPrefixed x = lengthPrefixed y) = (x = y)"
proof
  assume "lengthPrefixed x = lengthPrefixed y"
  then have "ReadUvarint (PutUvarint (of_nat (length x)) @ x)
      = ReadUvarint (PutUvarint (of_nat (length y)) @ y)"
    unfolding lengthPrefixed_def by (rule arg_cong)
  then show "x = y"
    by (simp add: ReadUvarint_PutUvarint)
next
  assume "x = y"
  then show "lengthPrefixed x = lengthPrefixed y" by simp
qed

lemma concat_map_update_cancel:
  assumes "i < length xs"
  shows "(concat (map f (xs[i := a])) = concat (map f xs)) = (f a = f (xs ! i))"
proof -
  have upd: "xs[i := a] = take i xs @ a # drop (Suc i) xs"
    using assms by (rule upd_conv_take_nth_drop)
  have orig: "xs = take i xs @ xs ! i # drop (Suc i) xs"
    using assms by (rule id_take_nth_drop)
  have "concat (map f (xs[i := a]))
      = concat (map f (take i xs)) @ f a @ concat (map f (drop (Suc i) xs))"
    by (subst upd) simp
  moreover have "concat (map f xs)
      = concat (map f (take i xs)) @ f (xs ! i) @ concat (map f (drop (Suc i) xs))"
    by (subst orig) simp
  ultimately show ?thesis by simp
qed

text \<open>
  Whatever the two digest functions are, the bytes that Hash feeds to SHA3-256 change
  exactly when the digest of the replaced field changes: after such a replacement the
  hash stays the same only where \<open>fastHash\<close> or SHA3-256 collides.
\<close>

theorem rendering_changes_iff_digest_changes:
  "(TxData_writeTo fastHash [] (t\<lparr>tx_Metadata := m\<rparr>) 0 = TxData_writeTo fastHash [] t 0)
     = (fastHash m = fastHash (tx_Metadata t))
   \<and> (i < length (Inputs t) \<longrightarrow>
        (TxData_writeTo fastHash []
           (t\<lparr>Inputs := (Inputs t)[i := (Inputs t ! i)\<lparr>ti_Metadata := m\<rparr>]\<rparr>) 0
         = TxData_writeTo fastHash [] t 0)
        = (fastHash m = fastHash (ti_Metadata (Inputs t ! i))))
   \<and> (i < length (Inputs t) \<longrightarrow>
        (TxData_writeTo fastHash []
           (t\<lparr>Inputs := (Inputs t)[i := (Inputs t ! i)\<lparr>AssetDefinition := m\<rparr>]\<rparr>) 0
         = TxData_writeTo fastHash [] t 0)
        = (fastHash m = fastHash (AssetDefinition (Inputs t ! i))))"
proof -
  have a: "(TxData_writeTo fastHash [] (t\<lparr>tx_Metadata := m\<rparr>) 0 = TxData_writeTo fastHash [] t 0)
     = (fastHash m = fastHash (tx_Metadata t))"
    by (simp add: TxData_writeTo_zero digest_rendering_def lengthPrefixed_inject)
  have md: "(input_digest_form fastHash (ti\<lparr>ti_Metadata := m\<rparr>) = input_digest_form fastHash ti)
      = (fastHash m = fastHash (ti_Metadata ti))" for ti
    by (simp add: input_digest_form_def lengthPrefixed_inject)
  have ad: "(input_digest_form fastHash (ti\<lparr>AssetDefinition := m\<rparr>) = input_digest_form fastHash ti)
      = (fastHash m = fastHash (AssetDefinition ti))" for ti
    by (simp add: input_digest_form_def lengthPrefixed_inject)
  have upd: "(TxData_writeTo fastHash [] (t\<lparr>Inputs := (Inputs t)[i := ti]\<rparr>) 0
         = TxData_writeTo fastHash [] t 0)
        = (input_digest_form fastHash ti = input_digest_form fastHash (Inputs t ! i))"
    if "i < length (Inputs t)" for ti
    using concat_map_update_cancel [OF that, of "input_digest_form fastHash" ti]
    by (simp add: TxData_writeTo_zero digest_rendering_def)
  from a upd md ad show ?thesis by simp
qed

text \<open>On the example, with the identity as digest, all three replacements change the bytes.\<close>

theorem rendering_changes_iff_digest_changes_witness:
  "(0::nat) < length (Inputs example_tx)
   \<and> TxData_writeTo id [] (example_tx\<lparr>tx_Metadata := [10]\<rparr>) 0 \<noteq> TxData_writeTo id [] example_tx 0
   \<and> TxData_writeTo id []
        (example_tx\<lparr>Inputs := (Inputs example_tx)[0 := (Inputs example_tx ! 0)\<lparr>ti_Metadata := [10]\<rparr>]\<rparr>) 0
       \<noteq> TxData_writeTo id [] example_tx 0
   \<and> TxData_writeTo id []
        (example_tx\<lparr>Inputs := (Inputs example_tx)[0 := (Inputs example_tx ! 0)\<lparr>AssetDefinition := [10]\<rparr>]\<rparr>) 0
       \<noteq> TxData_writeTo id [] example_tx 0"
proof -
  have h: "(0::nat) < length (Inputs example_tx)"
    "id [10] \<noteq> id (tx_Metadata example_tx)"
    "id [10] \<noteq> id (ti_Metadata (Inputs example_tx ! 0))"
    "id [10] \<noteq> id (AssetDefinition (Inputs example_tx ! 0))"
    by (simp_all add: example_tx_def example_input_def)
  from h rendering_changes_iff_digest_changes
    [where fastHash = id and t = example_tx and m = "[10]" and i = 0]
  show ?thesis by blast
qed

end
